theory Spec2Isabelle
  imports Complex_Main
begin

section \<open>Numbers\<close>

text \<open>
  Every number of the simulators is a JavaScript double. The engines are embedded over
  the mathematical reals: a finite double is read as the real it denotes and arithmetic is
  exact (no rounding, no overflow), so these definitions describe the code on numbers for
  which no operation overflows. NaN and the two infinities are embedded separately over
  \<open>jsnum\<close> below, where the z-score helpers and the nets, the pace and the drive
  probabilities of the discrete simulator are given once more with overflow, so that what
  the code does beyond the finite range can be stated.
\<close>

text \<open>\<^verbatim>\<open>x || d\<close> on a number \<open>x\<close> that is not NaN: zero is falsy.\<close>

definition js_or :: "real \<Rightarrow> real \<Rightarrow> real" where
  "js_or x d = (if x = 0 then d else x)"

text \<open>\<^verbatim>\<open>Math.round\<close>: the nearest integer, a tie going up.\<close>

definition js_round :: "real \<Rightarrow> int" where
  "js_round x = \<lfloor>x + 1 / 2\<rfloor>"

section \<open>Team records\<close>

text \<open>
  The normalised per-team record that \<^verbatim>\<open>parseRow\<close> (and \<^verbatim>\<open>projectTeamFromDB\<close>)
  build: every field holds a number, the parsed cell or the league default.
\<close>

record team =
  Team :: string
  off_ppd :: real
  off_epa :: real
  off_sr :: real
  off_rz :: real
  off_3out :: real
  off_xpl :: real
  off_penalties :: real
  off_to_epa :: real
  off_fp :: real
  def_ppd_allowed :: real
  def_epa_allowed :: real
  def_sr :: real
  def_rz :: real
  def_3out :: real
  def_xpl :: real
  def_penalties :: real
  off_dvoa :: real
  def_dvoa :: real
  off_drives :: real
  def_drives :: real
  off_plays :: real
  def_plays :: real
  ed_pass :: real
  no_huddle :: real

section \<open>The discrete per-drive simulator (DDSmontecarlo\_w8\_robust.js)\<close>

subsection \<open>Helpers\<close>

text \<open>
  \<^verbatim>\<open>const z = (v, m, s) => (!isFinite(s) || s === 0 || v === undefined || v === null) ? 0 : (v - m) / s;\<close>
  on finite numbers.
\<close>

definition z :: "real \<Rightarrow> real \<Rightarrow> real \<Rightarrow> real" where
  "z v m s = (if s = 0 then 0 else (v - m) / s)"

definition sigmoid :: "real \<Rightarrow> real" where
  "sigmoid x = 1 / (1 + exp (- x))"

definition clamp01 :: "real \<Rightarrow> real" where
  "clamp01 p = max 0 (min 1 p)"

subsection \<open>League baselines, logits and weights (\<^verbatim>\<open>params\<close>)\<close>

definition lg_PPD :: real where "lg_PPD = 2.02"
definition lg_PPD_sd :: real where "lg_PPD_sd = 0.40"
definition lg_EPA :: real where "lg_EPA = 0.022"
definition lg_EPA_sd :: real where "lg_EPA_sd = 0.127"
definition lg_SR :: real where "lg_SR = 0.43"
definition lg_SR_sd :: real where "lg_SR_sd = 0.05"
definition lg_RZ :: real where "lg_RZ = 0.56"
definition lg_RZ_sd :: real where "lg_RZ_sd = 0.12"
definition lg_ThreeOut :: real where "lg_ThreeOut = 0.24"
definition lg_ThreeOut_sd :: real where "lg_ThreeOut_sd = 0.05"

definition a0 :: real where "a0 = - 1.31"
definition a1 :: real where "a1 = 1.10"
definition a2 :: real where "a2 = 0.85"
definition a3 :: real where "a3 = 0.60"
definition a4 :: real where "a4 = 0.25"
definition b0 :: real where "b0 = - 0.76"
definition b1 :: real where "b1 = 0.95"
definition b2 :: real where "b2 = 0.55"
definition b3 :: real where "b3 = 0.35"
definition b4 :: real where "b4 = 0.40"
definition phi :: real where "phi = 0.32"

definition w_Pace_EDPass :: real where "w_Pace_EDPass = 0.10"
definition w_NoHuddle :: real where "w_NoHuddle = 0.20"

definition resid_c1 :: real where "resid_c1 = 0.56"
definition resid_c2 :: real where "resid_c2 = 0.21"

subsection \<open>Nets and pace\<close>

record nets =
  EPA_net :: real
  SR_net :: real
  RZ_net :: real
  ThreeOut_eff :: real
  PPD_resid :: real

definition buildNets :: "team \<Rightarrow> team \<Rightarrow> nets" where
  "buildNets off dfn =
     (let z_epa_o = z (off_epa off) lg_EPA lg_EPA_sd;
          z_sr_o = z (off_sr off) lg_SR lg_SR_sd;
          z_rz_o = z (off_rz off) lg_RZ lg_RZ_sd;
          z_3o_o = z (off_3out off) lg_ThreeOut lg_ThreeOut_sd;
          z_ppd_o = z (off_ppd off) lg_PPD lg_PPD_sd;
          z_epa_d = z (def_epa_allowed dfn) lg_EPA lg_EPA_sd;
          z_sr_d = z (def_sr dfn) lg_SR lg_SR_sd;
          z_rz_d = z (def_rz dfn) lg_RZ lg_RZ_sd;
          z_3o_d = z (def_3out dfn) lg_ThreeOut lg_ThreeOut_sd;
          z_ppd_d = z (def_ppd_allowed dfn) lg_PPD lg_PPD_sd;
          epa = z_epa_o - z_epa_d;
          sr = z_sr_o - z_sr_d;
          rz = z_rz_o - z_rz_d;
          three = z_3o_d - z_3o_o;
          ppd = z_ppd_o - z_ppd_d;
          resid = ppd - (resid_c1 * epa + resid_c2 * sr)
      in \<lparr>EPA_net = epa, SR_net = sr, RZ_net = rz, ThreeOut_eff = three, PPD_resid = resid\<rparr>)"

record pace =
  gameDrives :: real
  posShare :: real

text \<open>
  The value of \<^verbatim>\<open>gameDrives\<close> in \<^verbatim>\<open>computePace\<close> right before the clamping line
  \<^verbatim>\<open>gameDrives = Math.max(20, Math.min(30, gameDrives))\<close>.
\<close>

definition computePace_unclamped :: "team \<Rightarrow> team \<Rightarrow> real" where
  "computePace_unclamped H A =
     (let offDefAvgHome = (off_drives H + def_drives A) / 2;
          offDefAvgAway = (off_drives A + def_drives H) / 2;
          gd = offDefAvgHome + offDefAvgAway;
          nh_boost = (js_or (no_huddle H) 0 + js_or (no_huddle A) 0) / 2 * w_NoHuddle * 0.5;
          ed_adj = ((js_or (ed_pass H) 0 - 0.5) + (js_or (ed_pass A) 0 - 0.5)) / 2 * w_Pace_EDPass
      in gd * (1 + nh_boost + ed_adj))"

definition computePace :: "team \<Rightarrow> team \<Rightarrow> nets \<Rightarrow> pace" where
  "computePace H A netsHome =
     \<lparr>gameDrives = max 20 (min 30 (computePace_unclamped H A)),
      posShare = max 0.35 (min 0.65 (0.5 + 0.15 * (SR_net netsHome + 0.5 * EPA_net netsHome)))\<rparr>"

subsection \<open>Per-drive outcome probabilities\<close>

record prob3 =
  p3O :: real
  pTD :: real
  pFG :: real

record probs = prob3 +
  pEmpty :: real
  pS :: real
  pTD_S :: real

definition driveProbs :: "team \<Rightarrow> team \<Rightarrow> nets \<Rightarrow> probs" where
  "driveProbs off dfn n =
     (let opp3o_raw = def_3out dfn;
          rz_bad = - RZ_net n;
          p3 = clamp01 (sigmoid (a0 - a1 * EPA_net n - a2 * SR_net n
                 + a3 * (opp3o_raw - lg_ThreeOut) + a4 * rz_bad));
          ptds = clamp01 (sigmoid (b0 + b1 * EPA_net n + b2 * SR_net n + b3 * RZ_net n
                 + b4 * PPD_resid n));
          ps = 1 - p3;
          ptd = ps * ptds;
          pfg = ps * (1 - ptds) * max 0 (min 1 phi);
          pempty = max 0 (1 - (p3 + ptd + pfg))
      in \<lparr>p3O = p3, pTD = ptd, pFG = pfg, pEmpty = pempty, pS = ps, pTD_S = ptds\<rparr>)"

text \<open>
  The home-side tilt of \<^verbatim>\<open>simulateOne\<close>: \<^verbatim>\<open>adjHome\<close> before and after the
  renormalisation \<^verbatim>\<open>scaleH = sumH > 1 ? 1/sumH : 1\<close>.
\<close>

definition tiltHome :: "probs \<Rightarrow> real \<Rightarrow> prob3" where
  "tiltHome baseHome hfa =
     (let hfaTDk = 0.02 * max 0 hfa;
          hfa3Ok = 0.01 * max 0 hfa
      in \<lparr>p3O = clamp01 (p3O baseHome * (1 - hfa3Ok)),
          pTD = clamp01 (pTD baseHome * (1 + hfaTDk)),
          pFG = pFG baseHome\<rparr>)"

definition renorm :: "'a prob3_scheme \<Rightarrow> 'a prob3_scheme" where
  "renorm p =
     (let s = p3O p + pTD p + pFG p;
          scale = (if s > 1 then 1 / s else 1)
      in p\<lparr>p3O := p3O p * scale, pTD := pTD p * scale, pFG := pFG p * scale\<rparr>)"

definition adjHome :: "probs \<Rightarrow> real \<Rightarrow> prob3" where
  "adjHome baseHome hfa = renorm (tiltHome baseHome hfa)"

definition adjAway :: "probs \<Rightarrow> probs" where
  "adjAway baseAway = renorm baseAway"

text \<open>
  The mass \<^verbatim>\<open>sampleDrive\<close> leaves to its last branch (an empty possession): what remains
  of the unit interval after the three cumulative thresholds.
\<close>

definition residual_empty :: "'a prob3_scheme \<Rightarrow> real" where
  "residual_empty p = 1 - (p3O p + pTD p + pFG p)"

subsection \<open>One simulated game\<close>

text \<open>
  \<^verbatim>\<open>Math.random()\<close> is a stream of draws from \<open>[0, 1)\<close>: \<open>rnd k\<close> is the \<open>k\<close>-th value
  the generator hands out in a run, and every function that draws takes the position of
  its first draw and returns the position after its last.
\<close>

text \<open>The number of iterations of \<^verbatim>\<open>for (let i = 0; i < b; i++)\<close>.\<close>

definition loop_count :: "real \<Rightarrow> nat" where
  "loop_count b = nat \<lceil>b\<rceil>"

definition sampleDrive :: "'a prob3_scheme \<Rightarrow> real \<Rightarrow> real" where
  "sampleDrive p r =
     (if r < p3O p then 0
      else if r < p3O p + pTD p then 7
      else if r < p3O p + pTD p + pFG p then 3
      else 0)"

text \<open>
  \<^verbatim>\<open>for (let i = 0; i < drives; i++) score += sampleDrive(p)\<close>, with \<open>n\<close> iterations
  left, the next draw at position \<open>k\<close> and the score so far.
\<close>

primrec driveLoop :: "'a prob3_scheme \<Rightarrow> (nat \<Rightarrow> real) \<Rightarrow> nat \<Rightarrow> real \<Rightarrow> nat \<Rightarrow> real" where
  "driveLoop p rnd k score 0 = score"
| "driveLoop p rnd k score (Suc n) = driveLoop p rnd (Suc k) (score + sampleDrive p (rnd k)) n"

record 'p side_debug =
  drives :: real
  prob :: 'p

record debug =
  dbg_home :: "prob3 side_debug"
  dbg_away :: "probs side_debug"
  dbg_base_home :: probs
  dbg_base_away :: probs

record sim_out =
  hs :: real
  as :: real
  dbg :: debug

definition simulateOne ::
  "team \<Rightarrow> team \<Rightarrow> nets \<Rightarrow> nets \<Rightarrow> real \<Rightarrow> real \<Rightarrow> real \<Rightarrow> (nat \<Rightarrow> real) \<Rightarrow> nat \<Rightarrow> sim_out \<times> nat" where
  "simulateOne H A netsHome netsAway gd ps hfa rnd k =
     (let homeDrives = of_int (js_round (gd * ps));
          awayDrives = of_int (js_round (gd - homeDrives));
          baseHome = driveProbs H A netsHome;
          baseAway = driveProbs A H netsAway;
          aH = adjHome baseHome hfa;
          aA = adjAway baseAway;
          nH = loop_count homeDrives;
          nA = loop_count awayDrives;
          h = driveLoop aH rnd k 0 nH;
          a = driveLoop aA rnd (k + nH) 0 nA
      in (\<lparr>hs = h, as = a,
           dbg = \<lparr>dbg_home = \<lparr>drives = homeDrives, prob = aH\<rparr>,
                  dbg_away = \<lparr>drives = awayDrives, prob = aA\<rparr>,
                  dbg_base_home = baseHome, dbg_base_away = baseAway\<rparr>\<rparr>,
          k + nH + nA))"

subsection \<open>Aggregation\<close>

text \<open>
  The three reducers of \<^verbatim>\<open>run\<close>. \<open>None\<close> is the result that is not a number: the
  \<open>0/0\<close> of an empty array, or a read past its end.
\<close>

definition mean :: "real list \<Rightarrow> real option" where
  "mean arr = (if arr = [] then None else Some (foldl (\<lambda>a b. a + b) 0 arr / real (length arr)))"

definition median :: "real list \<Rightarrow> real option" where
  "median arr =
     (let s = sort arr; m = length s div 2
      in if s = [] then None
         else if length s mod 2 \<noteq> 0 then Some (s ! m)
         else Some ((s ! (m - 1) + s ! m) / 2))"

definition pct :: "real list \<Rightarrow> real \<Rightarrow> real option" where
  "pct arr p =
     (let s = sort arr;
          n = int (length s);
          i = \<lfloor>of_int (n - 1) * p\<rfloor>
      in if s = [] then None else Some (s ! nat (max 0 (min (n - 1) i))))"

text \<open>
  The market probabilities of \<^verbatim>\<open>run\<close>. A line left empty is \<^verbatim>\<open>null\<close> (\<open>None\<close>) and
  so is its probability (\<open>Null\<close>); \<open>N\<close> is the trial count the counts are divided by, and
  a division by zero does not give a finite number (\<open>NotFinite\<close>).
\<close>

datatype market_prob = Null | NotFinite | Prob real

definition ratio :: "nat \<Rightarrow> real \<Rightarrow> market_prob" where
  "ratio c N = (if N = 0 then NotFinite else Prob (real c / N))"

definition pOver :: "real option \<Rightarrow> real list \<Rightarrow> real \<Rightarrow> market_prob" where
  "pOver mktTot ts N =
     (case mktTot of None \<Rightarrow> Null
      | Some t \<Rightarrow> ratio (length (filter (\<lambda>x. x > t) ts)) N)"

definition pUnder :: "real option \<Rightarrow> real list \<Rightarrow> real \<Rightarrow> market_prob" where
  "pUnder mktTot ts N =
     (case mktTot of None \<Rightarrow> Null
      | Some t \<Rightarrow> ratio (length (filter (\<lambda>x. x < t) ts)) N)"

definition pHomeCover :: "real option \<Rightarrow> real list \<Rightarrow> real \<Rightarrow> market_prob" where
  "pHomeCover mktSpr ss N =
     (case mktSpr of None \<Rightarrow> Null
      | Some sp \<Rightarrow> ratio (length (filter (\<lambda>s. s + (- sp) > 0) ss)) N)"

definition pAwayCover :: "real option \<Rightarrow> real list \<Rightarrow> real \<Rightarrow> market_prob" where
  "pAwayCover mktSpr ss N =
     (case mktSpr of None \<Rightarrow> Null
      | Some sp \<Rightarrow> ratio (length (filter (\<lambda>s. s + (- sp) < 0) ss)) N)"

subsection \<open>The run\<close>

text \<open>
  The component state a run reads. \<open>teamDB\<close> maps a team name to its normalised
  record (in FIXED\_v2, to what \<^verbatim>\<open>projectTeamFromDB\<close> makes of the stored row).
  \<open>numSim\<close> holds what \<^verbatim>\<open>parseInt(e.target.value || 10000)\<close> stored: an integer, or
  \<open>None\<close> for NaN. The two market lines hold the number the text field parses to, or
  \<open>None\<close> for the empty field (a text that does not parse is NaN in the source and is not
  represented).
\<close>

record ui =
  teamDB :: "string \<rightharpoonup> team"
  homeTeam :: string
  awayTeam :: string
  marketTotal :: "real option"
  marketSpread :: "real option"

record dds_ui = ui +
  hfaPoints :: real
  numSim :: "int option"

text \<open>
  \<^verbatim>\<open>const N = Math.max(1, parseInt(numSim || 10000))\<close>. Zero and NaN are falsy, so
  \<^verbatim>\<open>||\<close> replaces them by 10000; \<^verbatim>\<open>parseInt\<close> of an integer-valued number below
  \<open>10\<^sup>2\<^sup>1\<close> in magnitude is that integer (larger ones print in exponent notation and
  are outside this embedding).
\<close>

definition trialCount :: "int option \<Rightarrow> int" where
  "trialCount ns = max 1 (case ns of None \<Rightarrow> 10000 | Some n \<Rightarrow> if n = 0 then 10000 else n)"

text \<open>
  The arrays of the trial loop. \<^verbatim>\<open>new Array(N)\<close> has \<open>N\<close> empty slots (\<open>None\<close>), which
  the loop fills by index.
\<close>

record 'a trial_arrays =
  totals :: "'a list"
  spreads :: "'a list"

record dds_acc = "real option trial_arrays" +
  sumH :: real
  sumA :: real
  lastDebug :: "debug option"
  next_draw :: nat

definition trialBody ::
  "team \<Rightarrow> team \<Rightarrow> nets \<Rightarrow> nets \<Rightarrow> pace \<Rightarrow> real \<Rightarrow> (nat \<Rightarrow> real) \<Rightarrow> nat \<Rightarrow> dds_acc \<Rightarrow> dds_acc" where
  "trialBody H A netsHome netsAway pc hfa rnd i acc =
     (let (out, k') = simulateOne H A netsHome netsAway (gameDrives pc) (posShare pc) hfa rnd (next_draw acc)
      in acc\<lparr>totals := (totals acc)[i := Some (hs out + as out)],
             spreads := (spreads acc)[i := Some (hs out - as out)],
             sumH := sumH acc + hs out,
             sumA := sumA acc + as out,
             lastDebug := (if i = 0 then Some (dbg out) else lastDebug acc),
             next_draw := k'\<rparr>)"

text \<open>\<^verbatim>\<open>for (let i = 0; i < N; i++) { ... }\<close> with \<open>n\<close> iterations left, at index \<open>i\<close>.\<close>

primrec trialLoop ::
  "team \<Rightarrow> team \<Rightarrow> nets \<Rightarrow> nets \<Rightarrow> pace \<Rightarrow> real \<Rightarrow> (nat \<Rightarrow> real) \<Rightarrow> nat \<Rightarrow> dds_acc \<Rightarrow> nat \<Rightarrow> dds_acc" where
  "trialLoop H A netsHome netsAway pc hfa rnd i acc 0 = acc"
| "trialLoop H A netsHome netsAway pc hfa rnd i acc (Suc n) =
     trialLoop H A netsHome netsAway pc hfa rnd (Suc i)
       (trialBody H A netsHome netsAway pc hfa rnd i acc) n"

definition initAcc :: "nat \<Rightarrow> dds_acc" where
  "initAcc N = \<lparr>totals = replicate N None, spreads = replicate N None,
                 sumH = 0, sumA = 0, lastDebug = None, next_draw = 0\<rparr>"

text \<open>
  The arrays and the trial loop of a run on the teams \<open>H\<close> and \<open>A\<close>, from the first draw
  on (a run reaches its loop when \<^verbatim>\<open>new Array(N)\<close> has not thrown, see \<open>run\<close> below).
\<close>

definition runTrials :: "team \<Rightarrow> team \<Rightarrow> real \<Rightarrow> int option \<Rightarrow> (nat \<Rightarrow> real) \<Rightarrow> dds_acc" where
  "runTrials H A hfaPts ns rnd =
     (let netsHome = buildNets H A;
          netsAway = buildNets A H;
          pc = computePace H A netsHome;
          N = nat (trialCount ns)
      in trialLoop H A netsHome netsAway pc (max 0 (js_or hfaPts 0)) rnd 0 (initAcc N) N)"

text \<open>
  To speak of one trial of a run: the number of draws a call of \<^verbatim>\<open>simulateOne\<close> makes
  (one per drive of either side), and the result of the call that trial \<open>j\<close> makes, which
  starts where the \<open>j\<close> trials before it stopped drawing.
\<close>

definition draws_per_game :: "real \<Rightarrow> real \<Rightarrow> nat" where
  "draws_per_game gd ps =
     (let homeDrives = of_int (js_round (gd * ps));
          awayDrives = of_int (js_round (gd - homeDrives))
      in loop_count homeDrives + loop_count awayDrives)"

definition trialOut :: "team \<Rightarrow> team \<Rightarrow> real \<Rightarrow> (nat \<Rightarrow> real) \<Rightarrow> nat \<Rightarrow> sim_out" where
  "trialOut H A hfaPts rnd j =
     (let netsHome = buildNets H A;
          netsAway = buildNets A H;
          pc = computePace H A netsHome
      in fst (simulateOne H A netsHome netsAway (gameDrives pc) (posShare pc)
                (max 0 (js_or hfaPts 0)) rnd (j * draws_per_game (gameDrives pc) (posShare pc))))"

record dist =
  p10 :: "real option"
  p25 :: "real option"
  p50 :: "real option"
  p75 :: "real option"
  p90 :: "real option"

definition ladder :: "(real list \<Rightarrow> real \<Rightarrow> real option) \<Rightarrow> real list \<Rightarrow> dist" where
  "ladder f arr = \<lparr>p10 = f arr 0.10, p25 = f arr 0.25, p50 = f arr 0.50,
                    p75 = f arr 0.75, p90 = f arr 0.90\<rparr>"

record summary =
  home :: string
  away :: string
  homeMean :: "real option"
  awayMean :: "real option"
  totalMean :: "real option"
  totalMedian :: "real option"
  spreadMean :: "real option"
  spreadMedian :: "real option"
  res_pOver :: market_prob
  res_pUnder :: market_prob
  res_pHomeCover :: market_prob
  res_pAwayCover :: market_prob
  totalDist :: dist
  spreadDist :: dist

record dds_result = summary +
  res_gameDrives :: real
  res_posShare :: real
  res_sample :: "debug option"

text \<open>
  How a run ends without a result: the two early returns of \<^verbatim>\<open>run\<close>, by the status
  message they set, and the RangeError (invalid array length) that \<^verbatim>\<open>new Array(N)\<close>
  throws when \<open>N\<close> exceeds \<open>2\<^sup>3\<^sup>2 - 1\<close>.
\<close>

datatype status = Pick_both_teams | Missing_team_data | Invalid_array_length

definition run :: "dds_ui \<Rightarrow> (nat \<Rightarrow> real) \<Rightarrow> status + dds_result" where
  "run st rnd =
     (if homeTeam st = [] \<or> awayTeam st = [] then Inl Pick_both_teams
      else case (teamDB st (homeTeam st), teamDB st (awayTeam st)) of
        (Some H, Some A) \<Rightarrow>
          if trialCount (numSim st) \<ge> 2 ^ 32 then Inl Invalid_array_length
          else
          (let pc = computePace H A (buildNets H A);
               N = real_of_int (trialCount (numSim st));
               acc = runTrials H A (hfaPoints st) (numSim st) rnd;
               ts = map the (totals acc);
               ss = map the (spreads acc)
           in Inr \<lparr>home = Team H, away = Team A,
                   homeMean = Some (sumH acc / N), awayMean = Some (sumA acc / N),
                   totalMean = mean ts, totalMedian = median ts,
                   spreadMean = mean ss, spreadMedian = median ss,
                   res_pOver = pOver (marketTotal st) ts N,
                   res_pUnder = pUnder (marketTotal st) ts N,
                   res_pHomeCover = pHomeCover (marketSpread st) ss N,
                   res_pAwayCover = pAwayCover (marketSpread st) ss N,
                   totalDist = ladder pct ts, spreadDist = ladder pct ss,
                   res_gameDrives = gameDrives pc, res_posShare = posShare pc,
                   res_sample = lastDebug acc\<rparr>)
      | _ \<Rightarrow> Inl Missing_team_data)"

section \<open>The Gaussian simulator (MonteCarloSimulator\_rewrite\_FIXED\_v2.js and its v3 sibling)\<close>

subsection \<open>League baselines and weights (\<^verbatim>\<open>params\<close>, the same in both files)\<close>

definition L_PPD :: real where "L_PPD = 2.06"
definition L_PPD_sd :: real where "L_PPD_sd = 0.42"
definition L_EPA :: real where "L_EPA = 0.022"
definition L_EPA_sd :: real where "L_EPA_sd = 0.127"
definition L_SR :: real where "L_SR = 0.43"
definition L_SR_sd :: real where "L_SR_sd = 0.05"
definition L_Xpl :: real where "L_Xpl = 0.113"
definition L_Xpl_sd :: real where "L_Xpl_sd = 0.033"
definition L_RZ :: real where "L_RZ = 0.56"
definition L_RZ_sd :: real where "L_RZ_sd = 0.12"
definition L_ThreeOut :: real where "L_ThreeOut = 0.24"
definition L_ThreeOut_sd :: real where "L_ThreeOut_sd = 0.05"
definition L_Pen :: real where "L_Pen = 0.44"
definition L_Pen_sd :: real where "L_Pen_sd = 0.12"
definition L_Drives :: real where "L_Drives = 24"

definition W_PPD :: real where "W_PPD = 0.20"
definition W_EPA :: real where "W_EPA = 0.40"
definition W_SR :: real where "W_SR = 0.20"
definition W_Xpl :: real where "W_Xpl = 0.10"
definition W_RZ :: real where "W_RZ = 0.10"
definition W_ThreeOut_eff :: real where "W_ThreeOut_eff = 0.25"
definition W_Pen :: real where "W_Pen = 0.05"
definition W_Pen_def :: real where "W_Pen_def = 0.05"
definition W_DVOA_off :: real where "W_DVOA_off = 0.15"
definition W_DVOA_def :: real where "W_DVOA_def = 0.15"
definition W_TO_EPA :: real where "W_TO_EPA = 0.10"
definition W_FP :: real where "W_FP = 0.10"
definition W_Pace_EDPass :: real where "W_Pace_EDPass = 0.10"
definition W_NoHuddle :: real where "W_NoHuddle = 0.20"

definition BaseTeamSD :: real where "BaseTeamSD = 9.0"
definition EV_SD_Total :: real where "EV_SD_Total = 12.7"

definition PPD_RESID_C1 :: real where "PPD_RESID_C1 = 0.56"
definition PPD_RESID_C2 :: real where "PPD_RESID_C2 = 0.21"

subsection \<open>Nets and pace\<close>

text \<open>\<^verbatim>\<open>zScore\<close> of FIXED\_v2 on finite numbers.\<close>

definition zScore :: "real \<Rightarrow> real \<Rightarrow> real \<Rightarrow> real" where
  "zScore v m sd = (if sd = 0 then 0 else (v - m) / sd)"

record gnets =
  epa_net :: real
  sr_net :: real
  ppd_resid :: real
  xpl_net :: real
  rz_net :: real
  out_net :: real
  z_pen_o :: real
  z_pen_d :: real

definition computeNetFeatures :: "team \<Rightarrow> team \<Rightarrow> gnets" where
  "computeNetFeatures tm oppDefense =
     (let z_ppd_o = zScore (off_ppd tm) L_PPD L_PPD_sd;
          z_epa_o = zScore (off_epa tm) L_EPA L_EPA_sd;
          z_sr_o = zScore (off_sr tm) L_SR L_SR_sd;
          z_xpl_o = zScore (off_xpl tm) L_Xpl L_Xpl_sd;
          z_rz_o = zScore (off_rz tm) L_RZ L_RZ_sd;
          z_out_o = zScore (off_3out tm) L_ThreeOut L_ThreeOut_sd;
          zpo = zScore (off_penalties tm) L_Pen L_Pen_sd;
          z_ppd_d = zScore (def_ppd_allowed oppDefense) L_PPD L_PPD_sd;
          z_epa_d = zScore (def_epa_allowed oppDefense) L_EPA L_EPA_sd;
          z_sr_d = zScore (def_sr oppDefense) L_SR L_SR_sd;
          z_xpl_d = zScore (def_xpl oppDefense) L_Xpl L_Xpl_sd;
          z_rz_d = zScore (def_rz oppDefense) L_RZ L_RZ_sd;
          z_out_d = zScore (def_3out oppDefense) L_ThreeOut L_ThreeOut_sd;
          zpd = zScore (def_penalties oppDefense) L_Pen L_Pen_sd;
          epa = z_epa_o - z_epa_d;
          sr = z_sr_o - z_sr_d;
          ppd_net = z_ppd_o - z_ppd_d;
          xpl = z_xpl_o - z_xpl_d;
          rz = z_rz_o - z_rz_d;
          out = z_out_d - z_out_o;
          resid = ppd_net - (PPD_RESID_C1 * epa + PPD_RESID_C2 * sr)
      in \<lparr>epa_net = epa, sr_net = sr, ppd_resid = resid, xpl_net = xpl, rz_net = rz,
          out_net = out, z_pen_o = zpo, z_pen_d = zpd\<rparr>)"

text \<open>The two pace adjustments, which every variant computes the same way.\<close>

definition nh_boost :: "team \<Rightarrow> team \<Rightarrow> real" where
  "nh_boost H A = (js_or (no_huddle H) 0 + js_or (no_huddle A) 0) / 2 * W_NoHuddle * 0.5"

definition ed_adj :: "team \<Rightarrow> team \<Rightarrow> real" where
  "ed_adj H A = ((js_or (ed_pass H) 0 - 0.5) + (js_or (ed_pass A) 0 - 0.5)) / 2 * W_Pace_EDPass"

text \<open>
  \<^verbatim>\<open>computeGamePace\<close> of FIXED\_v2: \<^verbatim>\<open>baseDrives\<close>, the drives before the clamp and the
  result.
\<close>

definition baseDrives :: "team \<Rightarrow> team \<Rightarrow> team \<Rightarrow> team \<Rightarrow> real" where
  "baseDrives H A awayDef homeDef =
     ((off_drives H + def_drives awayDef) / 2 + (off_drives A + def_drives homeDef) / 2) / 2"

definition computeGamePace_unclamped :: "team \<Rightarrow> team \<Rightarrow> team \<Rightarrow> team \<Rightarrow> real" where
  "computeGamePace_unclamped H A awayDef homeDef =
     baseDrives H A awayDef homeDef * (1 + nh_boost H A + ed_adj H A)"

definition computeGamePace :: "team \<Rightarrow> team \<Rightarrow> team \<Rightarrow> team \<Rightarrow> gnets \<Rightarrow> pace" where
  "computeGamePace H A awayDef homeDef netsHome =
     \<lparr>gameDrives = min 28 (max 18 (computeGamePace_unclamped H A awayDef homeDef)),
      posShare = max 0.35 (min 0.65 (0.5 + 0.15 * (sr_net netsHome + 0.5 * epa_net netsHome)))\<rparr>"

text \<open>\<^verbatim>\<open>computeGamePace\<close> of the v3 file (header: FIXED drives math, clamp [20,30]).\<close>

definition computeGamePace_v3_unclamped :: "team \<Rightarrow> team \<Rightarrow> team \<Rightarrow> team \<Rightarrow> real" where
  "computeGamePace_v3_unclamped H A awayDef homeDef =
     (let offDefAvgHome = (off_drives H + def_drives awayDef) / 2;
          offDefAvgAway = (off_drives A + def_drives homeDef) / 2
      in (offDefAvgHome + offDefAvgAway) * (1 + nh_boost H A + ed_adj H A))"

definition computeGamePace_v3 :: "team \<Rightarrow> team \<Rightarrow> team \<Rightarrow> team \<Rightarrow> gnets \<Rightarrow> pace" where
  "computeGamePace_v3 H A awayDef homeDef netsHome =
     \<lparr>gameDrives = min 30 (max 20 (computeGamePace_v3_unclamped H A awayDef homeDef)),
      posShare = max 0.35 (min 0.65 (0.5 + 0.15 * (sr_net netsHome + 0.5 * epa_net netsHome)))\<rparr>"

subsection \<open>Expected points and standard deviation\<close>

text \<open>The net advantage \<^verbatim>\<open>net_adv\<close> of \<^verbatim>\<open>estimateScore\<close>, the same in both files.\<close>

definition net_adv :: "team \<Rightarrow> team \<Rightarrow> gnets \<Rightarrow> real" where
  "net_adv tm oppDefense n =
     (let eff_net = ppd_resid n * W_PPD + epa_net n * W_EPA + sr_net n * W_SR
                    + xpl_net n * W_Xpl + rz_net n * W_RZ + out_net n * W_ThreeOut_eff;
          dvoa_adj = (off_dvoa tm / 100) * W_DVOA_off - (def_dvoa oppDefense / 100) * W_DVOA_def;
          to_adj = (off_to_epa tm * W_TO_EPA) / L_Drives;
          fp_adj = ((off_fp tm - 25) / 10) * W_FP;
          pen_adj = (- z_pen_o n * W_Pen + z_pen_d n * W_Pen_def)
      in eff_net + dvoa_adj + to_adj + fp_adj + pen_adj)"

text \<open>The drives of the side: \<^verbatim>\<open>isHome ? gameDrives * posShare : gameDrives * (1 - posShare)\<close>.\<close>

definition side_drives :: "bool \<Rightarrow> real \<Rightarrow> real \<Rightarrow> real" where
  "side_drives isHome gd ps = (if isHome then gd * ps else gd * (1 - ps))"

text \<open>
  Points per drive: the league mean moved by the net advantage, then the home-field
  advantage (\<^verbatim>\<open>if (isHome && hfa) ppd += hfa / Math.max(1, drives)\<close>; a zero \<open>hfa\<close> is
  falsy), then the clamp \<^verbatim>\<open>Math.max(0.4, Math.min(4.0, ppd))\<close>.
\<close>

definition ppd_unclamped :: "team \<Rightarrow> team \<Rightarrow> bool \<Rightarrow> real \<Rightarrow> real \<Rightarrow> real \<Rightarrow> gnets \<Rightarrow> real" where
  "ppd_unclamped tm oppDefense isHome hfa gd ps n =
     (let ppd0 = L_PPD + net_adv tm oppDefense n * L_PPD_sd
      in if isHome \<and> hfa \<noteq> 0 then ppd0 + hfa / max 1 (side_drives isHome gd ps) else ppd0)"

definition ppd_of :: "team \<Rightarrow> team \<Rightarrow> bool \<Rightarrow> real \<Rightarrow> real \<Rightarrow> real \<Rightarrow> gnets \<Rightarrow> real" where
  "ppd_of tm oppDefense isHome hfa gd ps n =
     max 0.4 (min 4.0 (ppd_unclamped tm oppDefense isHome hfa gd ps n))"

record projection =
  points :: real
  std_dev :: real

definition estimateScore :: "team \<Rightarrow> team \<Rightarrow> bool \<Rightarrow> real \<Rightarrow> real \<Rightarrow> real \<Rightarrow> gnets \<Rightarrow> projection" where
  "estimateScore tm oppDefense isHome hfa gd ps n =
     (let pts = ppd_of tm oppDefense isHome hfa gd ps n * side_drives isHome gd ps;
          var_inflater = 1 + 0.3 * \<bar>out_net n\<bar>;
          var_deflater = 1 - 0.15 * \<bar>sr_net n\<bar>;
          sd = BaseTeamSD * var_inflater * max 0.7 var_deflater
      in \<lparr>points = max 0 pts, std_dev = max 6.0 (min 13.0 sd)\<rparr>)"

record projection_v3 = projection +
  proj_drives :: real
  proj_ppd :: real

definition estimateScore_v3 :: "team \<Rightarrow> team \<Rightarrow> bool \<Rightarrow> real \<Rightarrow> real \<Rightarrow> real \<Rightarrow> gnets \<Rightarrow> projection_v3" where
  "estimateScore_v3 tm oppDefense isHome hfa gd ps n =
     (let drv = side_drives isHome gd ps;
          ppd = ppd_of tm oppDefense isHome hfa gd ps n;
          pts = ppd * drv;
          threeOut_net = def_3out oppDefense - off_3out tm;
          sr_net2 = off_sr tm - def_sr oppDefense;
          baseVar = EV_SD_Total ^ 2 / 2;
          volUp = 1 + 0.8 * max 0 threeOut_net;
          volDown = 1 - 0.6 * max 0 sr_net2
      in \<lparr>points = max 0 pts, std_dev = sqrt (baseVar * volUp * max 0.6 volDown),
          proj_drives = drv, proj_ppd = ppd\<rparr>)"

subsection \<open>The trial loop and the summary of FIXED\_v2\<close>

text \<open>
  The Box-Muller variate \<^verbatim>\<open>Math.sqrt(-2 * Math.log(u1)) * Math.cos(2 * Math.PI * u2)\<close>,
  for a draw \<open>u1\<close> above zero (a zero draw gives an infinite variate in the source, which
  this embedding does not represent).
\<close>

definition boxMuller :: "real \<Rightarrow> real \<Rightarrow> real" where
  "boxMuller u1 u2 = sqrt (- 2 * ln u1) * cos (2 * pi * u2)"

text \<open>\<^verbatim>\<open>Math.max(0, Math.round(mean + z * sd))\<close>.\<close>

definition drawScore :: "projection \<Rightarrow> real \<Rightarrow> real" where
  "drawScore pr zv = max 0 (of_int (js_round (points pr + zv * std_dev pr)))"

record gauss_acc = "real trial_arrays" +
  homeScores :: "real list"
  awayScores :: "real list"

definition gaussBody :: "projection \<Rightarrow> projection \<Rightarrow> (nat \<Rightarrow> real) \<Rightarrow> nat \<Rightarrow> gauss_acc \<Rightarrow> gauss_acc" where
  "gaussBody homeProjection awayProjection rnd i acc =
     (let u1 = rnd (4 * i); u2 = rnd (4 * i + 1);
          homeScore = drawScore homeProjection (boxMuller u1 u2);
          u3 = rnd (4 * i + 2); u4 = rnd (4 * i + 3);
          awayScore = drawScore awayProjection (boxMuller u3 u4)
      in acc\<lparr>homeScores := homeScores acc @ [homeScore],
             awayScores := awayScores acc @ [awayScore],
             totals := totals acc @ [homeScore + awayScore],
             spreads := spreads acc @ [homeScore - awayScore]\<rparr>)"

primrec gaussLoop :: "projection \<Rightarrow> projection \<Rightarrow> (nat \<Rightarrow> real) \<Rightarrow> nat \<Rightarrow> gauss_acc \<Rightarrow> nat \<Rightarrow> gauss_acc" where
  "gaussLoop hp ap rnd i acc 0 = acc"
| "gaussLoop hp ap rnd i acc (Suc n) = gaussLoop hp ap rnd (Suc i) (gaussBody hp ap rnd i acc) n"

text \<open>
  \<^verbatim>\<open>for (let i = 0; i < numSimulations; i++)\<close>: the comparison is false for NaN (\<open>None\<close>)
  and for a bound that is not positive. (A count of \<open>2\<^sup>3\<^sup>2\<close> trials and more, which the four
  arrays the loop pushes to cannot hold, is outside this embedding.)
\<close>

definition gauss_iterations :: "int option \<Rightarrow> nat" where
  "gauss_iterations ns = (case ns of None \<Rightarrow> 0 | Some n \<Rightarrow> nat n)"

record gauss_ui = ui +
  hfaAdjustment :: real
  numSimulations :: "int option"

text \<open>
  The two projections \<^verbatim>\<open>runSimulation\<close> computes before its loop: the home side with
  the home-field advantage, the away side from its own nets, both on the shared pace.
\<close>

definition projections :: "team \<Rightarrow> team \<Rightarrow> real \<Rightarrow> projection \<times> projection" where
  "projections homeData awayData hfa =
     (let netsHome = computeNetFeatures homeData awayData;
          netsAway = computeNetFeatures awayData homeData;
          pc = computeGamePace homeData awayData awayData homeData netsHome
      in (estimateScore homeData awayData True hfa (gameDrives pc) (posShare pc) netsHome,
          estimateScore awayData homeData False hfa (gameDrives pc) (posShare pc) netsAway))"

definition gaussTrials :: "team \<Rightarrow> team \<Rightarrow> real \<Rightarrow> int option \<Rightarrow> (nat \<Rightarrow> real) \<Rightarrow> gauss_acc" where
  "gaussTrials homeData awayData hfa ns rnd =
     (let (homeProjection, awayProjection) = projections homeData awayData hfa
      in gaussLoop homeProjection awayProjection rnd 0
           \<lparr>totals = [], spreads = [], homeScores = [], awayScores = []\<rparr> (gauss_iterations ns))"

definition percentile :: "real list \<Rightarrow> real \<Rightarrow> real option" where
  "percentile arr p =
     (let sorted = sort arr;
          n = int (length sorted);
          idx = \<lfloor>of_int n * p\<rfloor>
      in if sorted = [] then None else Some (sorted ! nat (min (max idx 0) (n - 1))))"

record gauss_result = summary +
  homeSD :: real
  awaySD :: real

definition runSimulation :: "gauss_ui \<Rightarrow> (nat \<Rightarrow> real) \<Rightarrow> status + gauss_result" where
  "runSimulation st rnd =
     (if homeTeam st = [] \<or> awayTeam st = [] then Inl Pick_both_teams
      else case (teamDB st (homeTeam st), teamDB st (awayTeam st)) of
        (Some homeData, Some awayData) \<Rightarrow>
          (let (homeProjection, awayProjection) = projections homeData awayData (hfaAdjustment st);
               acc = gaussTrials homeData awayData (hfaAdjustment st) (numSimulations st) rnd;
               ts = totals acc;
               ss = spreads acc
           in Inr \<lparr>home = homeTeam st, away = awayTeam st,
                   homeMean = mean (homeScores acc), awayMean = mean (awayScores acc),
                   totalMean = mean ts, totalMedian = median ts,
                   spreadMean = mean ss, spreadMedian = median ss,
                   res_pOver = pOver (marketTotal st) ts (real (length ts)),
                   res_pUnder = pUnder (marketTotal st) ts (real (length ts)),
                   res_pHomeCover = pHomeCover (marketSpread st) ss (real (length ss)),
                   res_pAwayCover = pAwayCover (marketSpread st) ss (real (length ss)),
                   totalDist = ladder percentile ts, spreadDist = ladder percentile ss,
                   homeSD = std_dev homeProjection, awaySD = std_dev awayProjection\<rparr>)
      | _ \<Rightarrow> Inl Missing_team_data)"

section \<open>The correlated simulator (MonteCarloSimulator\_calibrated\_v4\_DEBUG.js)\<close>

text \<open>
  What \<^verbatim>\<open>simulateGame\<close> computes before its trial loop and the loop reads: the expected
  points of each side for margins and for totals, and the correlation.
\<close>

record v4_setup =
  homeExpPts_forMargin :: real
  awayExpPts_forMargin :: real
  homeExpPts_forTotal :: real
  awayExpPts_forTotal :: real
  rho :: real

definition sigmaMargin :: "real \<Rightarrow> real" where
  "sigmaMargin expectedPts = max 9.5 (min 13.5 (8.0 + 0.18 * (expectedPts - 20)))"

definition sigmaTotal :: "real \<Rightarrow> real" where
  "sigmaTotal expectedPts = max 10.5 (min 15.5 (8.5 + 0.25 * (expectedPts - 20)))"

text \<open>The second variate of a Box-Muller pair (the first is \<open>boxMuller\<close>).\<close>

definition boxMuller_sin :: "real \<Rightarrow> real \<Rightarrow> real" where
  "boxMuller_sin u1 u2 = sqrt (- 2 * ln u1) * sin (2 * pi * u2)"

record v4_results =
  v4_homeScores :: "real list"
  v4_awayScores :: "real list"
  v4_totals :: "real list"
  v4_margins :: "real list"

definition simulateGame_body :: "v4_setup \<Rightarrow> (nat \<Rightarrow> real) \<Rightarrow> nat \<Rightarrow> v4_results \<Rightarrow> v4_results" where
  "simulateGame_body su rnd i results =
     (let u1 = rnd (4 * i); u2 = rnd (4 * i + 1);
          z1 = boxMuller u1 u2;
          z2 = boxMuller_sin u1 u2;
          u3 = rnd (4 * i + 2); u4 = rnd (4 * i + 3);
          z3 = boxMuller u3 u4;
          z4 = boxMuller_sin u3 u4;
          homeRandom = z1;
          awayRandom = rho su * z1 + sqrt (1 - rho su * rho su) * z2;
          homeScore_margin = max 0 (homeExpPts_forMargin su
                               + homeRandom * sigmaMargin (homeExpPts_forMargin su));
          awayScore_margin = max 0 (awayExpPts_forMargin su
                               + awayRandom * sigmaMargin (awayExpPts_forMargin su));
          homeRandom_total = 0.7 * z1 + 0.3 * z3;
          awayRandom_total = 0.7 * (rho su * z1 + sqrt (1 - rho su * rho su) * z2) + 0.3 * z4;
          homeScore_total = max 0 (homeExpPts_forTotal su
                              + homeRandom_total * sigmaTotal (homeExpPts_forTotal su));
          awayScore_total = max 0 (awayExpPts_forTotal su
                              + awayRandom_total * sigmaTotal (awayExpPts_forTotal su));
          homeScoreRounded = of_int (js_round homeScore_margin);
          awayScoreRounded = of_int (js_round awayScore_margin);
          totalRounded = of_int (js_round (homeScore_total + awayScore_total))
      in results\<lparr>v4_homeScores := v4_homeScores results @ [homeScoreRounded],
                 v4_awayScores := v4_awayScores results @ [awayScoreRounded],
                 v4_totals := v4_totals results @ [totalRounded],
                 v4_margins := v4_margins results @ [homeScoreRounded - awayScoreRounded]\<rparr>)"

primrec simulateGame_loop :: "v4_setup \<Rightarrow> (nat \<Rightarrow> real) \<Rightarrow> nat \<Rightarrow> v4_results \<Rightarrow> nat \<Rightarrow> v4_results" where
  "simulateGame_loop su rnd i results 0 = results"
| "simulateGame_loop su rnd i results (Suc n) =
     simulateGame_loop su rnd (Suc i) (simulateGame_body su rnd i results) n"

text \<open>The arrays after the \<open>numSims\<close> trials of \<^verbatim>\<open>simulateGame\<close>.\<close>

definition simulateGame_trials :: "v4_setup \<Rightarrow> (nat \<Rightarrow> real) \<Rightarrow> nat \<Rightarrow> v4_results" where
  "simulateGame_trials su rnd numSims =
     simulateGame_loop su rnd 0
       \<lparr>v4_homeScores = [], v4_awayScores = [], v4_totals = [], v4_margins = []\<rparr> numSims"

text \<open>
  To speak of one trial of \<^verbatim>\<open>simulateGame\<close>: the three rounded values that iteration
  \<open>i\<close> of its loop computes from its four draws.
\<close>

record v4_trial =
  homeScoreRounded :: real
  awayScoreRounded :: real
  totalRounded :: real

definition simulateGame_trial :: "v4_setup \<Rightarrow> (nat \<Rightarrow> real) \<Rightarrow> nat \<Rightarrow> v4_trial" where
  "simulateGame_trial su rnd i =
     (let z1 = boxMuller (rnd (4 * i)) (rnd (4 * i + 1));
          z2 = boxMuller_sin (rnd (4 * i)) (rnd (4 * i + 1));
          z3 = boxMuller (rnd (4 * i + 2)) (rnd (4 * i + 3));
          z4 = boxMuller_sin (rnd (4 * i + 2)) (rnd (4 * i + 3));
          awayRandom = rho su * z1 + sqrt (1 - rho su * rho su) * z2;
          homeScore_margin = max 0 (homeExpPts_forMargin su
                               + z1 * sigmaMargin (homeExpPts_forMargin su));
          awayScore_margin = max 0 (awayExpPts_forMargin su
                               + awayRandom * sigmaMargin (awayExpPts_forMargin su));
          homeScore_total = max 0 (homeExpPts_forTotal su
                              + (0.7 * z1 + 0.3 * z3) * sigmaTotal (homeExpPts_forTotal su));
          awayScore_total = max 0 (awayExpPts_forTotal su
                              + (0.7 * awayRandom + 0.3 * z4) * sigmaTotal (awayExpPts_forTotal su))
      in \<lparr>homeScoreRounded = of_int (js_round homeScore_margin),
          awayScoreRounded = of_int (js_round awayScore_margin),
          totalRounded = of_int (js_round (homeScore_total + awayScore_total))\<rparr>)"


section \<open>The helpers on all JavaScript numbers\<close>

text \<open>
  A double is a finite number, one of the two infinities or NaN. The result of an
  operation on finite numbers is kept exact while it lies in the range of the doubles and
  overflows to an infinity beyond it (at \<open>2\<^sup>1\<^sup>0\<^sup>2\<^sup>4 - 2\<^sup>9\<^sup>7\<^sup>0\<close>, where rounding to nearest first
  gives an infinity); rounding inside the range is not represented, and neither is the
  sign of a zero. The operations on infinities and NaN are those of IEEE 754, and
  \<^verbatim>\<open>Math.max\<close> and \<^verbatim>\<open>Math.min\<close> return NaN when an argument is NaN.
\<close>

datatype jsnum = Fin real | PInf | NInf | NaN

definition overflow_bound :: real where
  "overflow_bound = 2 ^ 1024 - 2 ^ 970"

definition js_fin :: "real \<Rightarrow> jsnum" where
  "js_fin x = (if \<bar>x\<bar> < overflow_bound then Fin x else if x > 0 then PInf else NInf)"

fun isFinite :: "jsnum \<Rightarrow> bool" where
  "isFinite (Fin x) = True"
| "isFinite PInf = False"
| "isFinite NInf = False"
| "isFinite NaN = False"

fun js_neg :: "jsnum \<Rightarrow> jsnum" where
  "js_neg (Fin x) = Fin (- x)"
| "js_neg PInf = NInf"
| "js_neg NInf = PInf"
| "js_neg NaN = NaN"

fun js_add :: "jsnum \<Rightarrow> jsnum \<Rightarrow> jsnum" where
  "js_add (Fin a) (Fin b) = js_fin (a + b)"
| "js_add NaN y = NaN"
| "js_add x NaN = NaN"
| "js_add PInf NInf = NaN"
| "js_add NInf PInf = NaN"
| "js_add PInf y = PInf"
| "js_add NInf y = NInf"
| "js_add (Fin a) PInf = PInf"
| "js_add (Fin a) NInf = NInf"

definition js_sub :: "jsnum \<Rightarrow> jsnum \<Rightarrow> jsnum" where
  "js_sub x y = js_add x (js_neg y)"

fun js_mul :: "jsnum \<Rightarrow> jsnum \<Rightarrow> jsnum" where
  "js_mul (Fin a) (Fin b) = js_fin (a * b)"
| "js_mul NaN y = NaN"
| "js_mul x NaN = NaN"
| "js_mul (Fin a) y = (if a = 0 then NaN else if a > 0 then y else js_neg y)"
| "js_mul x (Fin b) = (if b = 0 then NaN else if b > 0 then x else js_neg x)"
| "js_mul PInf y = y"
| "js_mul NInf y = js_neg y"

fun js_div :: "jsnum \<Rightarrow> jsnum \<Rightarrow> jsnum" where
  "js_div (Fin a) (Fin b) =
     (if b \<noteq> 0 then js_fin (a / b) else if a = 0 then NaN else if a > 0 then PInf else NInf)"
| "js_div NaN y = NaN"
| "js_div x NaN = NaN"
| "js_div (Fin a) y = Fin 0"
| "js_div x (Fin b) = (if b \<ge> 0 then x else js_neg x)"
| "js_div x y = NaN"

text \<open>\<^verbatim>\<open>Math.max\<close>, \<^verbatim>\<open>Math.min\<close> and \<^verbatim>\<open>Math.exp\<close>.\<close>

fun js_max :: "jsnum \<Rightarrow> jsnum \<Rightarrow> jsnum" where
  "js_max NaN y = NaN"
| "js_max x NaN = NaN"
| "js_max PInf y = PInf"
| "js_max x PInf = PInf"
| "js_max NInf y = y"
| "js_max x NInf = x"
| "js_max (Fin a) (Fin b) = Fin (max a b)"

fun js_min :: "jsnum \<Rightarrow> jsnum \<Rightarrow> jsnum" where
  "js_min NaN y = NaN"
| "js_min x NaN = NaN"
| "js_min NInf y = NInf"
| "js_min x NInf = NInf"
| "js_min PInf y = y"
| "js_min x PInf = x"
| "js_min (Fin a) (Fin b) = Fin (min a b)"

fun js_exp :: "jsnum \<Rightarrow> jsnum" where
  "js_exp (Fin x) = js_fin (exp x)"
| "js_exp PInf = PInf"
| "js_exp NInf = Fin 0"
| "js_exp NaN = NaN"

subsection \<open>The z-score helpers\<close>

text \<open>
  \<^verbatim>\<open>z\<close> of the v3 and discrete files. The value is \<open>None\<close> when it is
  \<^verbatim>\<open>undefined\<close> or \<^verbatim>\<open>null\<close>.
\<close>

definition z_js :: "jsnum option \<Rightarrow> jsnum \<Rightarrow> jsnum \<Rightarrow> jsnum" where
  "z_js v m s =
     (if \<not> isFinite s \<or> s = Fin 0 \<or> v = None then Fin 0 else js_div (js_sub (the v) m) s)"

text \<open>
  \<^verbatim>\<open>zScore\<close> of FIXED\_v2: \<^verbatim>\<open>if (value === null || value === undefined) return 0;
  if (!isFinite(sd) || sd === 0) return 0; return (value - mean) / sd;\<close>
\<close>

definition zScore_js :: "jsnum option \<Rightarrow> jsnum \<Rightarrow> jsnum \<Rightarrow> jsnum" where
  "zScore_js v m sd =
     (case v of None \<Rightarrow> Fin 0
      | Some x \<Rightarrow> if \<not> isFinite sd \<or> sd = Fin 0 then Fin 0 else js_div (js_sub x m) sd)"

text \<open>
  \<^verbatim>\<open>zScore\<close> of calibrated\_v4: \<^verbatim>\<open>if (sd === 0) return 0; return (value - mean) / sd;\<close>
\<close>

definition zScore_v4 :: "jsnum \<Rightarrow> jsnum \<Rightarrow> jsnum \<Rightarrow> jsnum" where
  "zScore_v4 v m sd = (if sd = Fin 0 then Fin 0 else js_div (js_sub v m) sd)"

subsection \<open>Nets, pace and drive probabilities of the discrete simulator\<close>

text \<open>
  \<^verbatim>\<open>buildNets\<close>, \<^verbatim>\<open>computePace\<close> and \<^verbatim>\<open>driveProbs\<close> once more, on all doubles: the
  fields of a team record are finite numbers, what is computed from them may overflow.
  \<^verbatim>\<open>x || 0\<close> on a finite number is the number itself.
\<close>

record nets_js =
  EPA_net_js :: jsnum
  SR_net_js :: jsnum
  RZ_net_js :: jsnum
  ThreeOut_eff_js :: jsnum
  PPD_resid_js :: jsnum

definition buildNets_js :: "team \<Rightarrow> team \<Rightarrow> nets_js" where
  "buildNets_js off dfn =
     (let z_epa_o = z_js (Some (Fin (off_epa off))) (Fin lg_EPA) (Fin lg_EPA_sd);
          z_sr_o = z_js (Some (Fin (off_sr off))) (Fin lg_SR) (Fin lg_SR_sd);
          z_rz_o = z_js (Some (Fin (off_rz off))) (Fin lg_RZ) (Fin lg_RZ_sd);
          z_3o_o = z_js (Some (Fin (off_3out off))) (Fin lg_ThreeOut) (Fin lg_ThreeOut_sd);
          z_ppd_o = z_js (Some (Fin (off_ppd off))) (Fin lg_PPD) (Fin lg_PPD_sd);
          z_epa_d = z_js (Some (Fin (def_epa_allowed dfn))) (Fin lg_EPA) (Fin lg_EPA_sd);
          z_sr_d = z_js (Some (Fin (def_sr dfn))) (Fin lg_SR) (Fin lg_SR_sd);
          z_rz_d = z_js (Some (Fin (def_rz dfn))) (Fin lg_RZ) (Fin lg_RZ_sd);
          z_3o_d = z_js (Some (Fin (def_3out dfn))) (Fin lg_ThreeOut) (Fin lg_ThreeOut_sd);
          z_ppd_d = z_js (Some (Fin (def_ppd_allowed dfn))) (Fin lg_PPD) (Fin lg_PPD_sd);
          epa = js_sub z_epa_o z_epa_d;
          sr = js_sub z_sr_o z_sr_d;
          rz = js_sub z_rz_o z_rz_d;
          three = js_sub z_3o_d z_3o_o;
          ppd = js_sub z_ppd_o z_ppd_d;
          resid = js_sub ppd (js_add (js_mul (Fin resid_c1) epa) (js_mul (Fin resid_c2) sr))
      in \<lparr>EPA_net_js = epa, SR_net_js = sr, RZ_net_js = rz, ThreeOut_eff_js = three,
          PPD_resid_js = resid\<rparr>)"

record pace_js =
  gameDrives_js :: jsnum
  posShare_js :: jsnum

definition computePace_js :: "team \<Rightarrow> team \<Rightarrow> nets_js \<Rightarrow> pace_js" where
  "computePace_js H A netsHome =
     (let offDefAvgHome = js_div (js_add (Fin (off_drives H)) (Fin (def_drives A))) (Fin 2);
          offDefAvgAway = js_div (js_add (Fin (off_drives A)) (Fin (def_drives H))) (Fin 2);
          gd = js_add offDefAvgHome offDefAvgAway;
          nh_boost = js_mul (js_mul (js_div (js_add (Fin (no_huddle H)) (Fin (no_huddle A))) (Fin 2))
                       (Fin w_NoHuddle)) (Fin 0.5);
          ed_adj = js_mul (js_div (js_add (js_sub (Fin (ed_pass H)) (Fin 0.5))
                                          (js_sub (Fin (ed_pass A)) (Fin 0.5))) (Fin 2))
                     (Fin w_Pace_EDPass);
          gd2 = js_mul gd (js_add (js_add (Fin 1) nh_boost) ed_adj);
          share = js_add (Fin 0.5) (js_mul (Fin 0.15)
                    (js_add (SR_net_js netsHome) (js_mul (Fin 0.5) (EPA_net_js netsHome))))
      in \<lparr>gameDrives_js = js_max (Fin 20) (js_min (Fin 30) gd2),
          posShare_js = js_max (Fin 0.35) (js_min (Fin 0.65) share)\<rparr>)"

definition sigmoid_js :: "jsnum \<Rightarrow> jsnum" where
  "sigmoid_js x = js_div (Fin 1) (js_add (Fin 1) (js_exp (js_neg x)))"

definition clamp01_js :: "jsnum \<Rightarrow> jsnum" where
  "clamp01_js p = js_max (Fin 0) (js_min (Fin 1) p)"

record probs_js =
  p3O_js :: jsnum
  pTD_js :: jsnum
  pFG_js :: jsnum
  pEmpty_js :: jsnum
  pS_js :: jsnum
  pTD_S_js :: jsnum

definition driveProbs_js :: "team \<Rightarrow> team \<Rightarrow> nets_js \<Rightarrow> probs_js" where
  "driveProbs_js off dfn n =
     (let opp3o_raw = Fin (def_3out dfn);
          rz_bad = js_neg (RZ_net_js n);
          p3 = clamp01_js (sigmoid_js
                 (js_add (js_add (js_sub (js_sub (Fin a0) (js_mul (Fin a1) (EPA_net_js n)))
                                         (js_mul (Fin a2) (SR_net_js n)))
                                 (js_mul (Fin a3) (js_sub opp3o_raw (Fin lg_ThreeOut))))
                         (js_mul (Fin a4) rz_bad)));
          ptds = clamp01_js (sigmoid_js
                 (js_add (js_add (js_add (js_add (Fin b0) (js_mul (Fin b1) (EPA_net_js n)))
                                         (js_mul (Fin b2) (SR_net_js n)))
                                 (js_mul (Fin b3) (RZ_net_js n)))
                         (js_mul (Fin b4) (PPD_resid_js n))));
          ps = js_sub (Fin 1) p3;
          ptd = js_mul ps ptds;
          pfg = js_mul (js_mul ps (js_sub (Fin 1) ptds)) (js_max (Fin 0) (js_min (Fin 1) (Fin phi)));
          pempty = js_max (Fin 0) (js_sub (Fin 1) (js_add (js_add p3 ptd) pfg))
      in \<lparr>p3O_js = p3, pTD_js = ptd, pFG_js = pfg, pEmpty_js = pempty, pS_js = ps,
          pTD_S_js = ptds\<rparr>)"

section \<open>Concrete inputs\<close>

text \<open>
  The record \<^verbatim>\<open>projectTeamFromDB\<close> builds for a row with no usable cell: every field at
  the default of FIXED\_v2.
\<close>

definition default_team :: team where
  "default_team =
     \<lparr>Team = ''Average'',
      off_ppd = 2.06, off_epa = 0.022, off_sr = 0.43, off_rz = 0.56, off_3out = 0.24,
      off_xpl = 0.113, off_penalties = 0.44, off_to_epa = 0, off_fp = 25,
      def_ppd_allowed = 2.06, def_epa_allowed = 0.022, def_sr = 0.43, def_rz = 0.56,
      def_3out = 0.24, def_xpl = 0.113, def_penalties = 0.44,
      off_dvoa = 0, def_dvoa = 0, off_drives = 12, def_drives = 12,
      off_plays = 62, def_plays = 62, ed_pass = 0.5, no_huddle = 0.02\<rparr>"

text \<open>The two teams of the drives-sum regression scenario, with no pace adjustment.\<close>

definition pace_home :: team where
  "pace_home = default_team\<lparr>Team := ''Home'', off_drives := 12, def_drives := 12.5, no_huddle := 0\<rparr>"

definition pace_away :: team where
  "pace_away = default_team\<lparr>Team := ''Away'', off_drives := 11.5, def_drives := 11, no_huddle := 0\<rparr>"

text \<open>
  A home offence two league standard deviations above the mean in every efficiency
  metric, and an away defence two standard deviations below in what it allows.
\<close>

definition strong_home :: team where
  "strong_home = default_team\<lparr>Team := ''Strong'', off_ppd := 2.90, off_epa := 0.276,
     off_sr := 0.53, off_rz := 0.80, off_3out := 0.14, off_xpl := 0.179\<rparr>"

definition stingy_away :: team where
  "stingy_away = default_team\<lparr>Team := ''Stingy'', def_ppd_allowed := 1.22,
     def_epa_allowed := - 0.232, def_sr := 0.33, def_rz := 0.32, def_3out := 0.34,
     def_xpl := 0.047\<rparr>"

text \<open>
  A component state with both teams picked and loaded, for the discrete and for the
  Gaussian simulator, and a stream of draws.
\<close>

definition two_teams :: "string \<rightharpoonup> team" where
  "two_teams = [''Strong'' \<mapsto> strong_home, ''Stingy'' \<mapsto> stingy_away]"

definition dds_state :: "int option \<Rightarrow> dds_ui" where
  "dds_state ns = \<lparr>teamDB = two_teams, homeTeam = ''Strong'', awayTeam = ''Stingy'',
     marketTotal = None, marketSpread = None, hfaPoints = 0, numSim = ns\<rparr>"

definition gauss_state :: "int option \<Rightarrow> gauss_ui" where
  "gauss_state ns = \<lparr>teamDB = two_teams, homeTeam = ''Strong'', awayTeam = ''Stingy'',
     marketTotal = None, marketSpread = None, hfaAdjustment = 0, numSimulations = ns\<rparr>"

definition half_quarter :: "nat \<Rightarrow> real" where
  "half_quarter k = (if even k then 1 / 2 else 1 / 4)"

text \<open>A calibrated\_v4 game with 20 expected points on every side and the baseline correlation.\<close>

definition even_game :: v4_setup where
  "even_game = \<lparr>homeExpPts_forMargin = 20, awayExpPts_forMargin = 20,
     homeExpPts_forTotal = 20, awayExpPts_forTotal = 20, rho = 0.22\<rparr>"


text \<open>
  A home record whose success rate and EPA per play are finite doubles at the two ends of
  the range (CSV cells \<^verbatim>\<open>1e308\<close> and \<^verbatim>\<open>-1e308\<close>), every other field at its default.
\<close>

definition overflow_home :: team where
  "overflow_home = default_team\<lparr>Team := ''Overflow'', off_epa := - (10 ^ 308), off_sr := 10 ^ 308\<rparr>"


section \<open>Properties\<close>

subsection \<open>Outcome probabilities of a drive\<close>

lemma unit_mix: 
  fixes p t f :: real
  assumes "0 \<le> p" "p \<le> 1" "0 \<le> t" "t \<le> 1" "0 \<le> f" "f \<le> 1"
  shows "0 \<le> (1 - p) * t" "0 \<le> (1 - p) * (1 - t) * f"
        "p + (1 - p) * t + (1 - p) * (1 - t) * f \<le> 1"
proof -
  show "0 \<le> (1 - p) * t" using assms by simp
  show "0 \<le> (1 - p) * (1 - t) * f" using assms by simp
  have "(1 - t) * f \<le> (1 - t) * 1"
    using assms by (intro mult_left_mono) simp_all
  then have "t + (1 - t) * f \<le> 1" by simp
  then have "(1 - p) * (t + (1 - t) * f) \<le> (1 - p) * 1"
    using assms by (intro mult_left_mono) simp_all
  then show "p + (1 - p) * t + (1 - p) * (1 - t) * f \<le> 1"
    by (simp add: algebra_simps)
qed

lemma driveProbs_base:
  "0 \<le> p3O (driveProbs off dfn n) \<and> p3O (driveProbs off dfn n) \<le> 1
   \<and> 0 \<le> pTD (driveProbs off dfn n) \<and> 0 \<le> pFG (driveProbs off dfn n)
   \<and> p3O (driveProbs off dfn n) + pTD (driveProbs off dfn n) + pFG (driveProbs off dfn n) \<le> 1
   \<and> pEmpty (driveProbs off dfn n)
       = 1 - (p3O (driveProbs off dfn n) + pTD (driveProbs off dfn n) + pFG (driveProbs off dfn n))"
proof -
  define p where "p = clamp01 (sigmoid (a0 - a1 * EPA_net n - a2 * SR_net n
                 + a3 * (def_3out dfn - lg_ThreeOut) + a4 * (- RZ_net n)))"
  define t where "t = clamp01 (sigmoid (b0 + b1 * EPA_net n + b2 * SR_net n + b3 * RZ_net n
                 + b4 * PPD_resid n))"
  define f where "f = max 0 (min 1 phi)"
  have r: "0 \<le> p" "p \<le> 1" "0 \<le> t" "t \<le> 1" "0 \<le> f" "f \<le> 1"
    by (simp_all add: p_def t_def f_def clamp01_def)
  note m = unit_mix [OF r]
  have e: "driveProbs off dfn n =
      \<lparr>p3O = p, pTD = (1 - p) * t, pFG = (1 - p) * (1 - t) * f,
       pEmpty = max 0 (1 - (p + (1 - p) * t + (1 - p) * (1 - t) * f)), pS = 1 - p, pTD_S = t\<rparr>"
    by (simp add: driveProbs_def Let_def p_def t_def f_def)
  show ?thesis
    unfolding e using r m by simp
qed

lemma renorm_props:
  assumes "0 \<le> p3O p" "0 \<le> pTD p" "0 \<le> pFG p"
  shows "0 \<le> p3O (renorm p) \<and> 0 \<le> pTD (renorm p) \<and> 0 \<le> pFG (renorm p)
         \<and> p3O (renorm p) + pTD (renorm p) + pFG (renorm p) \<le> 1"
proof (cases "p3O p + pTD p + pFG p > 1")
  case True
  define s where "s = p3O p + pTD p + pFG p"
  have s: "s > 1" using True by (simp add: s_def)
  have "p3O p / s + pTD p / s + pFG p / s = (p3O p + pTD p + pFG p) / s"
    by (simp add: add_divide_distrib)
  also have "\<dots> = 1" using s by (simp add: s_def)
  finally have one: "p3O p / s + pTD p / s + pFG p / s = 1" .
  have nn: "0 \<le> p3O p / s" "0 \<le> pTD p / s" "0 \<le> pFG p / s"
    using assms s by simp_all
  have r: "renorm p = p\<lparr>p3O := p3O p / s, pTD := pTD p / s, pFG := pFG p / s\<rparr>"
    using True by (simp add: renorm_def Let_def s_def)
  show ?thesis
    unfolding r using one nn by simp
next
  case False
  then show ?thesis using assms by (simp add: renorm_def Let_def)
qed

lemma tiltHome_nonneg:
  "0 \<le> pFG b \<Longrightarrow> 0 \<le> p3O (tiltHome b hfa) \<and> 0 \<le> pTD (tiltHome b hfa) \<and> 0 \<le> pFG (tiltHome b hfa)"
  by (simp add: tiltHome_def Let_def clamp01_def)

text \<open>
  On numbers for which no operation overflows, and with exact arithmetic: for all team
  records, all nets and every home-field advantage the probabilities of a three-and-out, a
  touchdown and a field goal are non-negative and, together with the probability of an
  empty possession, sum to a value in \<open>[0, 1]\<close> with a non-negative empty share: for the
  base probabilities of \<^verbatim>\<open>driveProbs\<close>, for the home side after the tilt and the
  renormalisation, and for the renormalised away side.
\<close>

lemma drive_probabilities_conserved_exact:
  "(let b = driveProbs off dfn n in
      0 \<le> p3O b \<and> 0 \<le> pTD b \<and> 0 \<le> pFG b \<and> 0 \<le> pEmpty b
      \<and> 0 \<le> p3O b + pTD b + pFG b + pEmpty b \<and> p3O b + pTD b + pFG b + pEmpty b \<le> 1)
   \<and> (let h = adjHome (driveProbs off dfn n) hfa in
      0 \<le> p3O h \<and> 0 \<le> pTD h \<and> 0 \<le> pFG h \<and> 0 \<le> residual_empty h
      \<and> 0 \<le> p3O h + pTD h + pFG h + residual_empty h
      \<and> p3O h + pTD h + pFG h + residual_empty h \<le> 1)
   \<and> (let a = adjAway (driveProbs off dfn n) in
      0 \<le> p3O a \<and> 0 \<le> pTD a \<and> 0 \<le> pFG a \<and> 0 \<le> residual_empty a
      \<and> 0 \<le> p3O a + pTD a + pFG a + residual_empty a
      \<and> p3O a + pTD a + pFG a + residual_empty a \<le> 1)"
proof -
  note b = driveProbs_base [of off dfn n]
  have t: "0 \<le> p3O (tiltHome (driveProbs off dfn n) hfa)"
          "0 \<le> pTD (tiltHome (driveProbs off dfn n) hfa)"
          "0 \<le> pFG (tiltHome (driveProbs off dfn n) hfa)"
    using tiltHome_nonneg [of "driveProbs off dfn n" hfa] b by simp_all
  note h = renorm_props [OF t]
  have a: "0 \<le> p3O (driveProbs off dfn n)" "0 \<le> pTD (driveProbs off dfn n)"
          "0 \<le> pFG (driveProbs off dfn n)"
    using b by simp_all
  note a' = renorm_props [OF a]
  show ?thesis
    using b h a' by (simp add: Let_def adjHome_def adjAway_def residual_empty_def)
qed

text \<open>Beyond the finite range: the nets of a home record at the two ends of the doubles.\<close>

lemma overflow_bound_pos: "0 < overflow_bound"
  by (simp add: overflow_bound_def)

lemma js_fin_zero: "js_fin 0 = Fin 0"
  by (simp add: js_fin_def overflow_bound_pos)

lemma league_consts_js:
  "lg_PPD = 2.02" "lg_PPD_sd = 0.40" "lg_EPA = 0.022" "lg_EPA_sd = 0.127" "lg_SR = 0.43"
  "lg_SR_sd = 0.05" "lg_RZ = 0.56" "lg_RZ_sd = 0.12" "lg_ThreeOut = 0.24" "lg_ThreeOut_sd = 0.05"
  "resid_c1 = 0.56" "resid_c2 = 0.21"
  by (simp_all add: lg_PPD_def lg_PPD_sd_def lg_EPA_def lg_EPA_sd_def lg_SR_def lg_SR_sd_def
      lg_RZ_def lg_RZ_sd_def lg_ThreeOut_def lg_ThreeOut_sd_def resid_c1_def resid_c2_def)

lemma logit_consts:
  "a0 = - 1.31" "a1 = 1.10" "a2 = 0.85" "a3 = 0.60" "a4 = 0.25"
  "b0 = - 0.76" "b1 = 0.95" "b2 = 0.55" "b3 = 0.35" "b4 = 0.40" "phi = 0.32"
  by (simp_all add: a0_def a1_def a2_def a3_def a4_def b0_def b1_def b2_def b3_def b4_def phi_def)

lemma nets_overflow:
  "buildNets_js overflow_home default_team
     = \<lparr>EPA_net_js = NInf, SR_net_js = PInf, RZ_net_js = Fin 0, ThreeOut_eff_js = Fin 0,
        PPD_resid_js = NaN\<rparr>"
  by (simp add: buildNets_js_def Let_def z_js_def js_sub_def js_fin_def overflow_bound_def
      overflow_home_def default_team_def league_consts_js)

text \<open>
  Claim C4 does not hold of the code. It has the four outcome probabilities in \<open>[0, 1]\<close>
  for every matchup, for every team record and under extreme nets. For the home record
  with a success rate of \<open>10\<^sup>3\<^sup>0\<^sup>8\<close> and an EPA per play of \<open>- 10\<^sup>3\<^sup>0\<^sup>8\<close> (finite doubles)
  against the default record, the z-scores overflow: the EPA net is \<open>- \<infinity>\<close>, the success
  rate net is \<open>+ \<infinity>\<close> and the PPD residual is NaN, both logits are \<open>\<infinity> - \<infinity>\<close>, and
  \<^verbatim>\<open>driveProbs\<close> returns NaN for the probability of a three-and-out, of a touchdown, of a
  field goal and of an empty possession: \<^verbatim>\<open>clamp01\<close> and \<^verbatim>\<open>Math.max(0, ...)\<close> let NaN
  through.
\<close>

theorem drive_probabilities_nan_on_overflow:
  "buildNets_js overflow_home default_team
     = \<lparr>EPA_net_js = NInf, SR_net_js = PInf, RZ_net_js = Fin 0, ThreeOut_eff_js = Fin 0,
        PPD_resid_js = NaN\<rparr>
   \<and> driveProbs_js overflow_home default_team (buildNets_js overflow_home default_team)
     = \<lparr>p3O_js = NaN, pTD_js = NaN, pFG_js = NaN, pEmpty_js = NaN, pS_js = NaN, pTD_S_js = NaN\<rparr>"
proof -
  have d: "driveProbs_js off dfn
             \<lparr>EPA_net_js = NInf, SR_net_js = PInf, RZ_net_js = Fin 0, ThreeOut_eff_js = Fin 0,
              PPD_resid_js = NaN\<rparr>
           = \<lparr>p3O_js = NaN, pTD_js = NaN, pFG_js = NaN, pEmpty_js = NaN, pS_js = NaN,
              pTD_S_js = NaN\<rparr>" for off dfn
    by (simp add: driveProbs_js_def Let_def clamp01_js_def sigmoid_js_def js_sub_def
        logit_consts js_fin_def overflow_bound_pos)
  show ?thesis
    unfolding nets_overflow using d by simp
qed

subsection \<open>The bands of the pace allocator\<close>

text \<open>
  On numbers for which no operation overflows: for all team records and all nets the home
  possession share of the pace allocator lies in \<open>[0.35, 0.65]\<close> and the combined game
  drives lie in the clamp range of the variant: \<open>[20, 30]\<close> in the discrete and the v3
  allocator, \<open>[18, 28]\<close> in FIXED\_v2.
\<close>

lemma pace_in_bands_exact:
  "0.35 \<le> posShare (computePace H A n) \<and> posShare (computePace H A n) \<le> 0.65
   \<and> 20 \<le> gameDrives (computePace H A n) \<and> gameDrives (computePace H A n) \<le> 30
   \<and> 0.35 \<le> posShare (computeGamePace_v3 H A awayDef homeDef g)
   \<and> posShare (computeGamePace_v3 H A awayDef homeDef g) \<le> 0.65
   \<and> 20 \<le> gameDrives (computeGamePace_v3 H A awayDef homeDef g)
   \<and> gameDrives (computeGamePace_v3 H A awayDef homeDef g) \<le> 30
   \<and> 0.35 \<le> posShare (computeGamePace H A awayDef homeDef g)
   \<and> posShare (computeGamePace H A awayDef homeDef g) \<le> 0.65
   \<and> 18 \<le> gameDrives (computeGamePace H A awayDef homeDef g)
   \<and> gameDrives (computeGamePace H A awayDef homeDef g) \<le> 28"
proof -
  have a: "\<And>x::real. 0.35 \<le> max 0.35 (min 0.65 x) \<and> max 0.35 (min 0.65 x) \<le> 0.65"
    by (simp add: max_def min_def)
  have b: "\<And>x::real. 20 \<le> max 20 (min 30 x) \<and> max 20 (min 30 x) \<le> 30"
    by (simp add: max_def min_def)
  have c: "\<And>x::real. 20 \<le> min 30 (max 20 x) \<and> min 30 (max 20 x) \<le> 30"
    by (simp add: max_def min_def)
  have d: "\<And>x::real. 18 \<le> min 28 (max 18 x) \<and> min 28 (max 18 x) \<le> 28"
    by (simp add: max_def min_def)
  show ?thesis
    unfolding computePace_def computeGamePace_v3_def computeGamePace_def pace.simps
    using a b c d by blast
qed

text \<open>
  On all doubles the clamp \<^verbatim>\<open>Math.max(lo, Math.min(hi, x))\<close> gives a number of the band
  for every \<open>x\<close> but NaN, infinite ones too, and NaN for NaN.
\<close>

lemma js_clamp_in_band:
  assumes "lo \<le> hi" "x \<noteq> NaN"
  shows "\<exists>v. js_max (Fin lo) (js_min (Fin hi) x) = Fin v \<and> lo \<le> v \<and> v \<le> hi"
  using assms by (cases x) (auto simp: max_def min_def)

lemma js_clamp_nan: "js_max (Fin lo) (js_min (Fin hi) NaN) = NaN"
  by simp

lemma computePace_js_in_bands_or_nan:
  "posShare_js (computePace_js H A n) = NaN
   \<or> (\<exists>v. posShare_js (computePace_js H A n) = Fin v \<and> 0.35 \<le> v \<and> v \<le> 0.65)"
  "gameDrives_js (computePace_js H A n) = NaN
   \<or> (\<exists>v. gameDrives_js (computePace_js H A n) = Fin v \<and> 20 \<le> v \<and> v \<le> 30)"
proof -
  have c: "js_max (Fin lo) (js_min (Fin hi) x) = NaN
           \<or> (\<exists>v. js_max (Fin lo) (js_min (Fin hi) x) = Fin v \<and> lo \<le> v \<and> v \<le> hi)"
    if "lo \<le> hi" for lo hi x
    using js_clamp_in_band [OF that, of x] js_clamp_nan [of lo hi] by (cases "x = NaN") simp_all
  show "posShare_js (computePace_js H A n) = NaN
   \<or> (\<exists>v. posShare_js (computePace_js H A n) = Fin v \<and> 0.35 \<le> v \<and> v \<le> 0.65)"
    unfolding computePace_js_def Let_def pace_js.simps by (rule c) simp
  show "gameDrives_js (computePace_js H A n) = NaN
   \<or> (\<exists>v. gameDrives_js (computePace_js H A n) = Fin v \<and> 20 \<le> v \<and> v \<le> 30)"
    unfolding computePace_js_def Let_def pace_js.simps by (rule c) simp
qed

text \<open>
  Claim C5 does not hold of the code. It has the home possession share in
  \<open>[0.35, 0.65]\<close> for every input, whatever the size of the signals. For the home record
  with a success rate of \<open>10\<^sup>3\<^sup>0\<^sup>8\<close> and an EPA per play of \<open>- 10\<^sup>3\<^sup>0\<^sup>8\<close> against the default
  record the nets are \<open>+ \<infinity>\<close> and \<open>- \<infinity>\<close>, their weighted sum is NaN, and
  \<^verbatim>\<open>Math.max(0.35, Math.min(0.65, posShare))\<close> returns NaN: \<^verbatim>\<open>computePace\<close> hands out a
  possession share that is not a number, next to game drives of 24.048.
\<close>

theorem pace_share_nan_on_overflow:
  "computePace_js overflow_home default_team (buildNets_js overflow_home default_team)
     = \<lparr>gameDrives_js = Fin 24.048, posShare_js = NaN\<rparr>"
proof -
  have b: "\<bar>x\<bar> < 1000 \<Longrightarrow> js_fin x = Fin x" for x
    by (simp add: js_fin_def overflow_bound_def)
  show ?thesis
    unfolding nets_overflow
    by (simp add: computePace_js_def Let_def js_sub_def overflow_home_def default_team_def
        w_NoHuddle_def w_Pace_EDPass_def b)
qed

subsection \<open>Home-field advantage in the Gaussian variant\<close>

lemma away_ignores_hfa:
  "estimateScore tm opp False hfa gd ps n = estimateScore tm opp False 0 gd ps n"
  by (simp add: estimateScore_def ppd_of_def ppd_unclamped_def)

lemma estimateScore_v3_points:
  "points (estimateScore_v3 tm opp isHome hfa gd ps n)
   = points (estimateScore tm opp isHome hfa gd ps n)"
  by (simp add: estimateScore_v3_def estimateScore_def Let_def)

text \<open>
  Where neither clamp of the points per drive binds and the home side has at least one
  drive, the expected home points move by exactly \<open>hfa\<close>.
\<close>

lemma hfa_shift_when_unclamped:
  assumes d: "1 \<le> gd * ps"
    and lo0: "0.4 \<le> ppd_unclamped tm opp True 0 gd ps n"
    and hi0: "ppd_unclamped tm opp True 0 gd ps n \<le> 4"
    and lo: "0.4 \<le> ppd_unclamped tm opp True hfa gd ps n"
    and hi: "ppd_unclamped tm opp True hfa gd ps n \<le> 4"
  shows "points (estimateScore tm opp True hfa gd ps n)
         - points (estimateScore tm opp True 0 gd ps n) = hfa"
proof -
  define q where "q = L_PPD + net_adv tm opp n * L_PPD_sd"
  define dr where "dr = gd * ps"
  have dr: "1 \<le> dr" using d by (simp add: dr_def)
  have sd: "side_drives True gd ps = dr" by (simp add: side_drives_def dr_def)
  have u0: "ppd_unclamped tm opp True 0 gd ps n = q"
    by (simp add: ppd_unclamped_def q_def Let_def)
  have u: "ppd_unclamped tm opp True hfa gd ps n = q + hfa / dr"
    using dr unfolding ppd_unclamped_def Let_def sd by (simp add: q_def max_def)
  have c0: "ppd_of tm opp True 0 gd ps n = q"
    using lo0 hi0 unfolding ppd_of_def u0 by (simp add: max_def min_def)
  have c: "ppd_of tm opp True hfa gd ps n = q + hfa / dr"
    using lo hi unfolding ppd_of_def u by (simp add: max_def min_def)
  have q0: "0 \<le> q" using lo0 unfolding u0 by linarith
  have qh: "0 \<le> q + hfa / dr" using lo unfolding u by linarith
  have n0: "0 \<le> q * dr" using q0 dr by simp
  have nh: "0 \<le> (q + hfa / dr) * dr"
    using qh dr by (intro mult_nonneg_nonneg) linarith+
  have p0: "points (estimateScore tm opp True 0 gd ps n) = q * dr"
    using n0 unfolding estimateScore_def Let_def c0 sd by (simp add: max_def)
  have p: "points (estimateScore tm opp True hfa gd ps n) = (q + hfa / dr) * dr"
    using nh unfolding estimateScore_def Let_def c sd by (simp add: max_def)
  have "(q + hfa / dr) * dr - q * dr = hfa"
    using dr by (simp add: field_simps)
  then show ?thesis unfolding p p0 .
qed

lemmas league_consts =
  L_PPD_def L_PPD_sd_def L_EPA_def L_EPA_sd_def L_SR_def L_SR_sd_def L_Xpl_def L_Xpl_sd_def
  L_RZ_def L_RZ_sd_def L_ThreeOut_def L_ThreeOut_sd_def L_Pen_def L_Pen_sd_def L_Drives_def

lemmas weight_consts =
  W_PPD_def W_EPA_def W_SR_def W_Xpl_def W_RZ_def W_ThreeOut_eff_def W_Pen_def W_Pen_def_def
  W_DVOA_off_def W_DVOA_def_def W_TO_EPA_def W_FP_def W_Pace_EDPass_def W_NoHuddle_def
  PPD_RESID_C1_def PPD_RESID_C2_def

lemma nets_strong:
  "computeNetFeatures strong_home stingy_away =
     \<lparr>epa_net = 4, sr_net = 4, ppd_resid = 0.92, xpl_net = 4, rz_net = 4,
      out_net = 4, z_pen_o = 0, z_pen_d = 0\<rparr>"
  by (simp add: computeNetFeatures_def zScore_def Let_def strong_home_def stingy_away_def
      default_team_def league_consts weight_consts)

lemma nets_stingy:
  "computeNetFeatures stingy_away strong_home =
     \<lparr>epa_net = 0, sr_net = 0, ppd_resid = 0, xpl_net = 0, rz_net = 0,
      out_net = 0, z_pen_o = 0, z_pen_d = 0\<rparr>"
  by (simp add: computeNetFeatures_def zScore_def Let_def strong_home_def stingy_away_def
      default_team_def league_consts weight_consts)

lemma pace_strong:
  "computeGamePace strong_home stingy_away stingy_away strong_home
     (computeNetFeatures strong_home stingy_away) = \<lparr>gameDrives = 18, posShare = 0.65\<rparr>"
  unfolding nets_strong
  by (simp add: computeGamePace_def computeGamePace_unclamped_def baseDrives_def nh_boost_def
      ed_adj_def js_or_def strong_home_def stingy_away_def default_team_def weight_consts)

lemma net_adv_strong:
  "net_adv strong_home stingy_away (computeNetFeatures strong_home stingy_away) = 4.384"
  unfolding nets_strong
  by (simp add: net_adv_def Let_def strong_home_def stingy_away_def default_team_def
      league_consts weight_consts)

lemma net_adv_stingy:
  "net_adv stingy_away strong_home (computeNetFeatures stingy_away strong_home) = 0"
  unfolding nets_stingy
  by (simp add: net_adv_def Let_def strong_home_def stingy_away_def default_team_def
      league_consts weight_consts)

lemma ppd_strong_hfa3:
  "ppd_of strong_home stingy_away True 3 18 0.65
     (computeNetFeatures strong_home stingy_away) = 4"
  by (simp add: ppd_of_def ppd_unclamped_def net_adv_strong side_drives_def league_consts Let_def)

lemma ppd_strong_hfa0:
  "ppd_of strong_home stingy_away True 0 18 0.65
     (computeNetFeatures strong_home stingy_away) = 3.90128"
  by (simp add: ppd_of_def ppd_unclamped_def net_adv_strong side_drives_def league_consts Let_def)

lemma ppd_stingy:
  "ppd_of stingy_away strong_home False hfa 18 0.65
     (computeNetFeatures stingy_away strong_home) = 2.06"
  by (simp add: ppd_of_def ppd_unclamped_def net_adv_stingy side_drives_def league_consts Let_def)

lemma points_strong_hfa3:
  "points (estimateScore strong_home stingy_away True 3 18 0.65
     (computeNetFeatures strong_home stingy_away)) = 46.8"
  using ppd_strong_hfa3 by (simp add: estimateScore_def Let_def side_drives_def)

lemma points_strong_hfa0:
  "points (estimateScore strong_home stingy_away True 0 18 0.65
     (computeNetFeatures strong_home stingy_away)) = 45.644976"
  using ppd_strong_hfa0 by (simp add: estimateScore_def Let_def side_drives_def)

lemma points_stingy:
  "points (estimateScore stingy_away strong_home False hfa 18 0.65
     (computeNetFeatures stingy_away strong_home)) = 12.978"
  using ppd_stingy [of hfa] by (simp add: estimateScore_def Let_def side_drives_def)

text \<open>
  Claim C1 says that in the Gaussian variant the expected margin with a home-field
  advantage \<open>hfa\<close> exceeds the expected margin without it by exactly \<open>hfa\<close>, for all
  valid inputs. \<^verbatim>\<open>estimateScore\<close> adds \<open>hfa / max(1, drives)\<close> before it clamps the points
  per drive to \<open>[0.4, 4.0]\<close>, so the shift is lost where the clamp binds: for a strong
  home offence against a stingy away defence and \<open>hfa = 3\<close>, the projections of
  \<^verbatim>\<open>runSimulation\<close> give 46.8 home points with the advantage and 45.644976 without, the
  away side 12.978 in both, and the margin moves by 1.155024, not by 3.
\<close>

theorem hfa_shift_lost_to_clamp:
  "(let (h3, a3) = projections strong_home stingy_away 3;
        (h0, a0') = projections strong_home stingy_away 0
    in points h3 = 46.8 \<and> points h0 = 45.644976 \<and> points a3 = 12.978 \<and> points a0' = 12.978
       \<and> (points h3 - points a3) - (points h0 - points a0') = 1.155024
       \<and> (points h3 - points a3) - (points h0 - points a0') \<noteq> 3)"
  unfolding projections_def Let_def pace_strong pace.simps prod.case
  using points_strong_hfa3 points_strong_hfa0 points_stingy [of 3] points_stingy [of 0]
  by simp

subsection \<open>Game drives\<close>

text \<open>In FIXED\_v2 the base drives are the single average of the four pace numbers.\<close>

lemma baseDrives_single_average:
  "baseDrives H A A H = (off_drives H + def_drives A + off_drives A + def_drives H) / 4"
  by (simp add: baseDrives_def field_simps)

text \<open>
  Claim C2 says that the pace allocator takes the sum of the two per-team averages, 23.5
  in the regression scenario (home offence 12, away defence 11, away offence 11.5, home
  defence 12.5, no pace adjustment). \<^verbatim>\<open>computePace\<close> of the discrete simulator and
  \<^verbatim>\<open>computeGamePace\<close> of the v3 file do; \<^verbatim>\<open>computeGamePace\<close> of FIXED\_v2 halves the
  sum again and gets 11.75, which its clamp then raises to 18.
\<close>

theorem fixed_v2_halves_the_drives:
  "baseDrives pace_home pace_away pace_away pace_home = 11.75
   \<and> computeGamePace_unclamped pace_home pace_away pace_away pace_home = 11.75
   \<and> gameDrives (computeGamePace pace_home pace_away pace_away pace_home g) = 18
   \<and> computePace_unclamped pace_home pace_away = 23.5
   \<and> computeGamePace_v3_unclamped pace_home pace_away pace_away pace_home = 23.5"
  by (simp add: baseDrives_def computeGamePace_unclamped_def computeGamePace_def
      computePace_unclamped_def computeGamePace_v3_unclamped_def nh_boost_def ed_adj_def
      js_or_def Let_def pace_home_def pace_away_def default_team_def)

subsection \<open>Z-scores against a degenerate baseline\<close>

text \<open>On finite numbers the helpers are the real-valued ones the engines are embedded with.\<close>

lemma z_js_finite:
  assumes "\<bar>v - m\<bar> < overflow_bound" "\<bar>(v - m) / s\<bar> < overflow_bound"
  shows "z_js (Some (Fin v)) (Fin m) (Fin s) = Fin (z v m s)"
  using assms by (simp add: z_js_def z_def js_sub_def js_fin_def)

lemma zScore_js_finite:
  assumes "\<bar>v - m\<bar> < overflow_bound" "\<bar>(v - m) / s\<bar> < overflow_bound"
  shows "zScore_js (Some (Fin v)) (Fin m) (Fin s) = Fin (zScore v m s)"
  using assms by (simp add: zScore_js_def zScore_def js_sub_def js_fin_def)

text \<open>
  Claim C3, as amended. For every value (also a missing one) and every mean, \<^verbatim>\<open>z\<close> of the
  v3 and discrete files and \<^verbatim>\<open>zScore\<close> of FIXED\_v2 return exactly 0 when the standard
  deviation is zero or not finite, and so the net of two such z-scores is exactly 0.
  \<^verbatim>\<open>zScore\<close> of calibrated\_v4 returns 0 when the standard deviation is zero, and when it
  is infinite, value and mean are finite and their difference does not overflow.
\<close>

theorem z_degenerate_sd:
  assumes "sd = Fin 0 \<or> \<not> isFinite sd"
  shows "z_js v m sd = Fin 0 \<and> zScore_js v m sd = Fin 0
         \<and> js_sub (z_js vo m sd) (z_js vd m sd) = Fin 0
         \<and> js_sub (zScore_js vo m sd) (zScore_js vd m sd) = Fin 0
         \<and> zScore_v4 x m (Fin 0) = Fin 0
         \<and> (\<bar>a - b\<bar> < overflow_bound \<longrightarrow>
               zScore_v4 (Fin a) (Fin b) PInf = Fin 0 \<and> zScore_v4 (Fin a) (Fin b) NInf = Fin 0)"
proof -
  have g: "z_js v' m sd = Fin 0" "zScore_js v' m sd = Fin 0" for v'
    using assms by (auto simp: z_js_def zScore_js_def split: option.splits)
  have s: "js_sub (Fin 0) (Fin 0) = Fin 0"
    by (simp add: js_sub_def js_fin_zero)
  have v: "zScore_v4 x m (Fin 0) = Fin 0"
    by (simp add: zScore_v4_def)
  have w: "zScore_v4 (Fin a) (Fin b) PInf = Fin 0 \<and> zScore_v4 (Fin a) (Fin b) NInf = Fin 0"
    if "\<bar>a - b\<bar> < overflow_bound"
    using that by (simp add: zScore_v4_def js_sub_def js_fin_def)
  show ?thesis
    using s v w by (simp add: g)
qed

theorem z_degenerate_sd_witness:
  "z_js (Some (Fin 1)) (Fin 0) NaN = Fin 0 \<and> zScore_js (Some PInf) (Fin 0) (Fin 0) = Fin 0
   \<and> js_sub (z_js (Some (Fin 3)) (Fin 1) PInf) (z_js None (Fin 1) PInf) = Fin 0
   \<and> zScore_v4 (Fin 3) (Fin 1) PInf = Fin 0"
proof -
  have n: "NaN = Fin 0 \<or> \<not> isFinite NaN" by simp
  have z: "Fin 0 = Fin 0 \<or> \<not> isFinite (Fin 0)" by simp
  have p: "PInf = Fin 0 \<or> \<not> isFinite PInf" by simp
  have b: "\<bar>3 - 1 :: real\<bar> < overflow_bound" by (simp add: overflow_bound_def)
  show ?thesis
    using z_degenerate_sd [OF n, of "Some (Fin 1)" "Fin 0" None None NaN 0 0]
          z_degenerate_sd [OF z, of "Some PInf" "Fin 0" None None NaN 0 0]
          z_degenerate_sd [OF p, of None "Fin 1" "Some (Fin 3)" None NaN 3 1] b
    by blast
qed

text \<open>
  The claim as stated fails on \<^verbatim>\<open>zScore\<close> of calibrated\_v4, which tests only
  \<^verbatim>\<open>sd === 0\<close>: a NaN standard deviation gives NaN.
\<close>

theorem zScore_v4_nan_sd:
  "zScore_v4 (Fin 1) (Fin 0) NaN = NaN \<and> zScore_v4 (Fin 1) (Fin 0) NaN \<noteq> Fin 0"
  by (simp add: zScore_v4_def js_sub_def js_fin_def overflow_bound_def)

text \<open>
  So does an infinite standard deviation under a difference that overflows:
  \<open>(10\<^sup>3\<^sup>0\<^sup>8 - (- 10\<^sup>3\<^sup>0\<^sup>8)) / \<infinity>\<close> is \<open>\<infinity> / \<infinity>\<close>.
\<close>

lemma zScore_v4_overflow:
  "zScore_v4 (Fin (10 ^ 308)) (Fin (- (10 ^ 308))) PInf = NaN"
  by (simp add: zScore_v4_def js_sub_def js_fin_def overflow_bound_def)

subsection \<open>Aggregation\<close>

lemma sort_five_totals: "sort [38, 41, 45, 50, 52 :: real] = [38, 41, 45, 50, 52]"
  by simp

lemma mean_example: "mean [38, 41, 45, 50, 52] = Some 45.2"
  by (simp add: mean_def)

lemma median_example: "median [38, 41, 45, 50, 52] = Some 45"
  by (simp add: median_def Let_def)

lemma pct_example: "pct [38, 41, 45, 50, 52] 0.5 = Some 45"
  by (simp add: pct_def Let_def)

lemma percentile_example: "percentile [38, 41, 45, 50, 52] 0.5 = Some 45"
  by (simp add: percentile_def Let_def)

lemma foldl_add: "foldl (\<lambda>a b. a + b) (a::real) xs = a + sum_list xs"
  by (induction xs arbitrary: a) simp_all

lemma mean_sum: "arr \<noteq> [] \<Longrightarrow> mean arr = Some (sum_list arr / real (length arr))"
  by (simp add: mean_def foldl_add)

lemma median_even:
  assumes "arr \<noteq> []" "even (length arr)"
  shows "median arr = Some ((sort arr ! (length arr div 2 - 1) + sort arr ! (length arr div 2)) / 2)"
proof -
  have "sort arr \<noteq> []" using assms(1) by (metis length_sort length_0_conv)
  then show ?thesis using assms(2) by (simp add: median_def Let_def)
qed

lemma median_odd:
  assumes "odd (length arr)"
  shows "median arr = Some (sort arr ! (length arr div 2))"
proof -
  have "arr \<noteq> []" using assms by auto
  then have "sort arr \<noteq> []" by (metis length_sort length_0_conv)
  then show ?thesis using assms by (simp add: median_def Let_def odd_iff_mod_2_eq_one)
qed

lemma pct_index:
  assumes ne: "arr \<noteq> []" and p0: "0 \<le> p" and p1: "p \<le> 1"
  shows "pct arr p = Some (sort arr ! nat \<lfloor>real (length arr - 1) * p\<rfloor>)"
proof -
  define n where "n = int (length (sort arr))"
  define x where "x = (of_int (n - 1) :: real)"
  have n1: "1 \<le> n" using ne by (cases arr) (simp_all add: n_def)
  have s: "sort arr \<noteq> []" using ne by (metis length_sort length_0_conv)
  have r: "x = real (length arr - 1)"
    using n1 by (simp add: x_def n_def of_nat_diff)
  have x0: "0 \<le> x" using n1 by (simp add: x_def)
  have lo: "0 \<le> \<lfloor>x * p\<rfloor>"
    using x0 p0 by simp
  have "x * p \<le> x * 1"
    using x0 p1 by (intro mult_left_mono) simp_all
  then have "\<lfloor>x * p\<rfloor> \<le> \<lfloor>x\<rfloor>"
    using floor_mono [of "x * p" x] by simp
  then have hi: "\<lfloor>x * p\<rfloor> \<le> n - 1"
    by (simp only: x_def floor_of_int)
  have m: "max 0 (min (n - 1) \<lfloor>x * p\<rfloor>) = \<lfloor>x * p\<rfloor>"
    using lo hi by simp
  have "pct arr p = Some (sort arr ! nat (max 0 (min (n - 1) \<lfloor>x * p\<rfloor>)))"
    using s by (simp only: pct_def Let_def n_def x_def if_False)
  then have "pct arr p = Some (sort arr ! nat \<lfloor>x * p\<rfloor>)"
    by (simp only: m)
  then show ?thesis
    by (simp only: r)
qed

lemma percentile_index:
  assumes ne: "arr \<noteq> []" and p0: "0 \<le> p"
  shows "percentile arr p = Some (sort arr ! min (length arr - 1) (nat \<lfloor>real (length arr) * p\<rfloor>))"
proof -
  define n where "n = int (length (sort arr))"
  define idx where "idx = \<lfloor>(of_int n :: real) * p\<rfloor>"
  have n1: "1 \<le> n" using ne by (cases arr) (simp_all add: n_def)
  have s: "sort arr \<noteq> []" using ne by (metis length_sort length_0_conv)
  have r: "idx = \<lfloor>real (length arr) * p\<rfloor>"
    by (simp add: idx_def n_def)
  have lo: "0 \<le> idx"
    using n1 p0 by (simp add: idx_def)
  have m: "nat (n - 1) = length arr - 1"
    by (simp add: n_def nat_diff_distrib')
  have e: "nat (min (max idx 0) (n - 1)) = min (length arr - 1) (nat idx)"
  proof (cases "idx \<le> n - 1")
    case True
    then have "nat idx \<le> nat (n - 1)" by (rule nat_mono)
    then have "min (length arr - 1) (nat idx) = nat idx" by (simp only: m min_def) simp
    moreover have "min (max idx 0) (n - 1) = idx" using True lo by simp
    ultimately show ?thesis by simp
  next
    case False
    then have "nat (n - 1) \<le> nat idx" by (intro nat_mono) simp
    then have "min (length arr - 1) (nat idx) = length arr - 1" by (simp only: m min_def) simp
    moreover have "min (max idx 0) (n - 1) = n - 1" using False lo by simp
    ultimately show ?thesis using m by simp
  qed
  have "percentile arr p = Some (sort arr ! nat (min (max idx 0) (n - 1)))"
    using s by (simp only: percentile_def Let_def n_def idx_def if_False)
  then have "percentile arr p = Some (sort arr ! min (length arr - 1) (nat idx))"
    by (simp only: e)
  then show ?thesis
    by (simp only: r)
qed

text \<open>
  Claim C6, as amended. For the totals \<open>[38, 41, 45, 50, 52]\<close> the median and the 50th
  percentile are 45 and the mean is 45.2. For every non-empty array the mean is the sum
  over the length, and the median is the midpoint of the two central elements of the
  sorted array when the length is even and the central element when it is odd. For
  \<open>0 \<le> p \<le> 1\<close>, \<^verbatim>\<open>pct\<close> of the discrete and v3 files reads the sorted array at index
  \<open>floor((n - 1) * p)\<close>, and \<^verbatim>\<open>percentile\<close> of FIXED\_v2 at index \<open>floor(n * p)\<close>, capped
  at \<open>n - 1\<close>.
\<close>

theorem aggregation_conventions:
  assumes "arr \<noteq> []" and "0 \<le> p" and "p \<le> 1"
  shows "mean [38, 41, 45, 50, 52] = Some 45.2
       \<and> median [38, 41, 45, 50, 52] = Some 45
       \<and> pct [38, 41, 45, 50, 52] 0.5 = Some 45
       \<and> percentile [38, 41, 45, 50, 52] 0.5 = Some 45
       \<and> mean arr = Some (sum_list arr / real (length arr))
       \<and> (even (length arr) \<longrightarrow>
            median arr = Some ((sort arr ! (length arr div 2 - 1) + sort arr ! (length arr div 2)) / 2))
       \<and> (odd (length arr) \<longrightarrow> median arr = Some (sort arr ! (length arr div 2)))
       \<and> pct arr p = Some (sort arr ! nat \<lfloor>real (length arr - 1) * p\<rfloor>)
       \<and> percentile arr p
           = Some (sort arr ! min (length arr - 1) (nat \<lfloor>real (length arr) * p\<rfloor>))"
  using mean_example median_example pct_example percentile_example
        mean_sum [OF assms(1)] median_even [OF assms(1)] median_odd [of arr]
        pct_index [OF assms] percentile_index [OF assms(1,2)]
  by blast

theorem aggregation_conventions_witness:
  "mean [52, 38, 50, 41] = Some 45.25
   \<and> median [52, 38, 50, 41] = Some 45.5
   \<and> pct [52, 38, 50, 41] 0.9 = Some 50
   \<and> percentile [52, 38, 50, 41] 0.9 = Some 52"
  using aggregation_conventions [of "[52, 38, 50, 41]" "0.9"]
  by simp

text \<open>
  The claim as stated has every percentile function at index \<open>floor((n - 1) * p)\<close>.
  \<^verbatim>\<open>percentile\<close> of FIXED\_v2 is not: on the five totals its 90th percentile is 52, the
  element at index \<open>floor(5 * 0.9) = 4\<close>, where index \<open>floor(4 * 0.9) = 3\<close> holds 50.
\<close>

theorem percentile_v2_other_index:
  "percentile [38, 41, 45, 50, 52] 0.9 = Some 52
   \<and> sort [38, 41, 45, 50, 52 :: real] ! nat \<lfloor>real (length [38, 41, 45, 50, 52 :: real] - 1) * 0.9\<rfloor> = 50
   \<and> pct [38, 41, 45, 50, 52] 0.9 = Some 50"
  by (simp add: percentile_def pct_def Let_def)

subsection \<open>The trial loops\<close>

lemma simulateOne_snd:
  "snd (simulateOne H A nH nA gd ps hfa rnd k) = k + draws_per_game gd ps"
  by (simp add: simulateOne_def draws_per_game_def Let_def)

lemma trialBody_fields:
  "totals (trialBody H A nH nA pc hfa rnd i acc)
     = (totals acc)[i := Some (hs (fst (simulateOne H A nH nA (gameDrives pc) (posShare pc) hfa rnd (next_draw acc)))
                              + as (fst (simulateOne H A nH nA (gameDrives pc) (posShare pc) hfa rnd (next_draw acc))))]"
  "spreads (trialBody H A nH nA pc hfa rnd i acc)
     = (spreads acc)[i := Some (hs (fst (simulateOne H A nH nA (gameDrives pc) (posShare pc) hfa rnd (next_draw acc)))
                               - as (fst (simulateOne H A nH nA (gameDrives pc) (posShare pc) hfa rnd (next_draw acc))))]"
  "next_draw (trialBody H A nH nA pc hfa rnd i acc)
     = next_draw acc + draws_per_game (gameDrives pc) (posShare pc)"
  using simulateOne_snd [of H A nH nA "gameDrives pc" "posShare pc" hfa rnd "next_draw acc"]
  by (simp_all add: trialBody_def split_def Let_def)

lemma trialLoop_next_draw:
  "next_draw (trialLoop H A nH nA pc hfa rnd i acc n)
     = next_draw acc + n * draws_per_game (gameDrives pc) (posShare pc)"
  by (induction n arbitrary: i acc) (simp_all add: trialBody_fields)

lemma trialLoop_length:
  "length (totals (trialLoop H A nH nA pc hfa rnd i acc n)) = length (totals acc)
   \<and> length (spreads (trialLoop H A nH nA pc hfa rnd i acc n)) = length (spreads acc)"
  by (induction n arbitrary: i acc) (simp_all add: trialBody_fields)

lemma trialLoop_totals:
  assumes "j < length (totals acc)"
  shows "totals (trialLoop H A nH nA pc hfa rnd i acc n) ! j =
     (if i \<le> j \<and> j < i + n
      then Some (hs (fst (simulateOne H A nH nA (gameDrives pc) (posShare pc) hfa rnd
                       (next_draw acc + (j - i) * draws_per_game (gameDrives pc) (posShare pc))))
               + as (fst (simulateOne H A nH nA (gameDrives pc) (posShare pc) hfa rnd
                       (next_draw acc + (j - i) * draws_per_game (gameDrives pc) (posShare pc)))))
      else totals acc ! j)"
  using assms
proof (induction n arbitrary: i acc)
  case 0
  then show ?case by auto
next
  case (Suc n)
  let ?acc = "trialBody H A nH nA pc hfa rnd i acc"
  let ?d = "draws_per_game (gameDrives pc) (posShare pc)"
  have len: "j < length (totals ?acc)"
    using Suc.prems by (simp add: trialBody_fields)
  note ih = Suc.IH [OF len, of "Suc i"]
  show ?case
  proof (cases "Suc i \<le> j \<and> j < Suc i + n")
    case True
    then have "j - i = Suc (j - Suc i)" by linarith
    then have "(j - i) * ?d = ?d + (j - Suc i) * ?d" by simp
    then have "next_draw ?acc + (j - Suc i) * ?d = next_draw acc + (j - i) * ?d"
      by (simp add: trialBody_fields)
    then show ?thesis using True ih by simp
  next
    case False
    then show ?thesis using ih Suc.prems
      by (auto simp: trialBody_fields nth_list_update)
  qed
qed

lemma trialLoop_spreads:
  assumes "j < length (spreads acc)"
  shows "spreads (trialLoop H A nH nA pc hfa rnd i acc n) ! j =
     (if i \<le> j \<and> j < i + n
      then Some (hs (fst (simulateOne H A nH nA (gameDrives pc) (posShare pc) hfa rnd
                       (next_draw acc + (j - i) * draws_per_game (gameDrives pc) (posShare pc))))
               - as (fst (simulateOne H A nH nA (gameDrives pc) (posShare pc) hfa rnd
                       (next_draw acc + (j - i) * draws_per_game (gameDrives pc) (posShare pc)))))
      else spreads acc ! j)"
  using assms
proof (induction n arbitrary: i acc)
  case 0
  then show ?case by auto
next
  case (Suc n)
  let ?acc = "trialBody H A nH nA pc hfa rnd i acc"
  let ?d = "draws_per_game (gameDrives pc) (posShare pc)"
  have len: "j < length (spreads ?acc)"
    using Suc.prems by (simp add: trialBody_fields)
  note ih = Suc.IH [OF len, of "Suc i"]
  show ?case
  proof (cases "Suc i \<le> j \<and> j < Suc i + n")
    case True
    then have "j - i = Suc (j - Suc i)" by linarith
    then have "(j - i) * ?d = ?d + (j - Suc i) * ?d" by simp
    then have "next_draw ?acc + (j - Suc i) * ?d = next_draw acc + (j - i) * ?d"
      by (simp add: trialBody_fields)
    then show ?thesis using True ih by simp
  next
    case False
    then show ?thesis using ih Suc.prems
      by (auto simp: trialBody_fields nth_list_update)
  qed
qed

lemma runTrials_length:
  "length (totals (runTrials H A hfaPts ns rnd)) = nat (trialCount ns)
   \<and> length (spreads (runTrials H A hfaPts ns rnd)) = nat (trialCount ns)"
  by (simp add: runTrials_def Let_def trialLoop_length initAcc_def)

lemma runTrials_entry:
  assumes "j < nat (trialCount ns)"
  shows "totals (runTrials H A hfaPts ns rnd) ! j
           = Some (hs (trialOut H A hfaPts rnd j) + as (trialOut H A hfaPts rnd j))"
    and "spreads (runTrials H A hfaPts ns rnd) ! j
           = Some (hs (trialOut H A hfaPts rnd j) - as (trialOut H A hfaPts rnd j))"
  using assms
  by (simp_all add: runTrials_def trialOut_def Let_def trialLoop_totals trialLoop_spreads initAcc_def)

lemma gaussBody_fields:
  "homeScores (gaussBody hp ap rnd i acc)
     = homeScores acc @ [drawScore hp (boxMuller (rnd (4 * i)) (rnd (4 * i + 1)))]"
  "awayScores (gaussBody hp ap rnd i acc)
     = awayScores acc @ [drawScore ap (boxMuller (rnd (4 * i + 2)) (rnd (4 * i + 3)))]"
  "totals (gaussBody hp ap rnd i acc)
     = totals acc @ [drawScore hp (boxMuller (rnd (4 * i)) (rnd (4 * i + 1)))
                     + drawScore ap (boxMuller (rnd (4 * i + 2)) (rnd (4 * i + 3)))]"
  "spreads (gaussBody hp ap rnd i acc)
     = spreads acc @ [drawScore hp (boxMuller (rnd (4 * i)) (rnd (4 * i + 1)))
                      - drawScore ap (boxMuller (rnd (4 * i + 2)) (rnd (4 * i + 3)))]"
  by (simp_all add: gaussBody_def Let_def)

lemma gaussLoop_inv:
  assumes "length (homeScores acc) = i" "length (awayScores acc) = i"
    and "length (totals acc) = i" "length (spreads acc) = i"
    and "\<forall>j<i. homeScores acc ! j = drawScore hp (boxMuller (rnd (4 * j)) (rnd (4 * j + 1)))
             \<and> awayScores acc ! j = drawScore ap (boxMuller (rnd (4 * j + 2)) (rnd (4 * j + 3)))
             \<and> totals acc ! j = homeScores acc ! j + awayScores acc ! j
             \<and> spreads acc ! j = homeScores acc ! j - awayScores acc ! j"
  shows "length (homeScores (gaussLoop hp ap rnd i acc n)) = i + n
       \<and> length (awayScores (gaussLoop hp ap rnd i acc n)) = i + n
       \<and> length (totals (gaussLoop hp ap rnd i acc n)) = i + n
       \<and> length (spreads (gaussLoop hp ap rnd i acc n)) = i + n
       \<and> (\<forall>j<i + n.
             homeScores (gaussLoop hp ap rnd i acc n) ! j
               = drawScore hp (boxMuller (rnd (4 * j)) (rnd (4 * j + 1)))
           \<and> awayScores (gaussLoop hp ap rnd i acc n) ! j
               = drawScore ap (boxMuller (rnd (4 * j + 2)) (rnd (4 * j + 3)))
           \<and> totals (gaussLoop hp ap rnd i acc n) ! j
               = homeScores (gaussLoop hp ap rnd i acc n) ! j
                 + awayScores (gaussLoop hp ap rnd i acc n) ! j
           \<and> spreads (gaussLoop hp ap rnd i acc n) ! j
               = homeScores (gaussLoop hp ap rnd i acc n) ! j
                 - awayScores (gaussLoop hp ap rnd i acc n) ! j)"
  using assms
proof (induction n arbitrary: i acc)
  case 0
  then show ?case by simp
next
  case (Suc n)
  let ?acc = "gaussBody hp ap rnd i acc"
  have l: "length (homeScores ?acc) = Suc i" "length (awayScores ?acc) = Suc i"
          "length (totals ?acc) = Suc i" "length (spreads ?acc) = Suc i"
    using Suc.prems by (simp_all add: gaussBody_fields)
  have p: "\<forall>j<Suc i. homeScores ?acc ! j = drawScore hp (boxMuller (rnd (4 * j)) (rnd (4 * j + 1)))
             \<and> awayScores ?acc ! j = drawScore ap (boxMuller (rnd (4 * j + 2)) (rnd (4 * j + 3)))
             \<and> totals ?acc ! j = homeScores ?acc ! j + awayScores ?acc ! j
             \<and> spreads ?acc ! j = homeScores ?acc ! j - awayScores ?acc ! j"
    using Suc.prems by (auto simp: gaussBody_fields nth_append less_Suc_eq)
  show ?case
    using Suc.IH [OF l p] by simp
qed

lemma gaussTrials_spec:
  "length (totals (gaussTrials H A hfa ns rnd)) = gauss_iterations ns
   \<and> length (spreads (gaussTrials H A hfa ns rnd)) = gauss_iterations ns
   \<and> length (homeScores (gaussTrials H A hfa ns rnd)) = gauss_iterations ns
   \<and> length (awayScores (gaussTrials H A hfa ns rnd)) = gauss_iterations ns
   \<and> (\<forall>j<gauss_iterations ns.
         homeScores (gaussTrials H A hfa ns rnd) ! j
           = drawScore (fst (projections H A hfa)) (boxMuller (rnd (4 * j)) (rnd (4 * j + 1)))
       \<and> awayScores (gaussTrials H A hfa ns rnd) ! j
           = drawScore (snd (projections H A hfa)) (boxMuller (rnd (4 * j + 2)) (rnd (4 * j + 3)))
       \<and> totals (gaussTrials H A hfa ns rnd) ! j
           = homeScores (gaussTrials H A hfa ns rnd) ! j + awayScores (gaussTrials H A hfa ns rnd) ! j
       \<and> spreads (gaussTrials H A hfa ns rnd) ! j
           = homeScores (gaussTrials H A hfa ns rnd) ! j - awayScores (gaussTrials H A hfa ns rnd) ! j)"
  using gaussLoop_inv [of "\<lparr>totals = [], spreads = [], homeScores = [], awayScores = []\<rparr>" 0
          "fst (projections H A hfa)" rnd "snd (projections H A hfa)" "gauss_iterations ns"]
  by (simp add: gaussTrials_def split_def Let_def)

lemma simulateGame_body_lengths:
  "length (v4_homeScores (simulateGame_body su rnd i r)) = Suc (length (v4_homeScores r))"
  "length (v4_awayScores (simulateGame_body su rnd i r)) = Suc (length (v4_awayScores r))"
  "length (v4_totals (simulateGame_body su rnd i r)) = Suc (length (v4_totals r))"
  "length (v4_margins (simulateGame_body su rnd i r)) = Suc (length (v4_margins r))"
  by (simp_all add: simulateGame_body_def Let_def)

lemma simulateGame_body_margin:
  "v4_margins (simulateGame_body su rnd i r) ! length (v4_margins r)
     = v4_homeScores (simulateGame_body su rnd i r) ! length (v4_homeScores r)
       - v4_awayScores (simulateGame_body su rnd i r) ! length (v4_awayScores r)"
  by (simp add: simulateGame_body_def Let_def)

lemma simulateGame_body_old:
  "j < length (v4_margins r) \<Longrightarrow>
     v4_margins (simulateGame_body su rnd i r) ! j = v4_margins r ! j"
  "j < length (v4_homeScores r) \<Longrightarrow>
     v4_homeScores (simulateGame_body su rnd i r) ! j = v4_homeScores r ! j"
  "j < length (v4_awayScores r) \<Longrightarrow>
     v4_awayScores (simulateGame_body su rnd i r) ! j = v4_awayScores r ! j"
  by (simp_all add: simulateGame_body_def Let_def nth_append)

lemma simulateGame_loop_inv:
  assumes "length (v4_homeScores r) = i" "length (v4_awayScores r) = i"
    and "length (v4_totals r) = i" "length (v4_margins r) = i"
    and "\<forall>j<i. v4_margins r ! j = v4_homeScores r ! j - v4_awayScores r ! j"
  shows "length (v4_homeScores (simulateGame_loop su rnd i r n)) = i + n
       \<and> length (v4_awayScores (simulateGame_loop su rnd i r n)) = i + n
       \<and> length (v4_totals (simulateGame_loop su rnd i r n)) = i + n
       \<and> length (v4_margins (simulateGame_loop su rnd i r n)) = i + n
       \<and> (\<forall>j<i + n. v4_margins (simulateGame_loop su rnd i r n) ! j
              = v4_homeScores (simulateGame_loop su rnd i r n) ! j
                - v4_awayScores (simulateGame_loop su rnd i r n) ! j)"
  using assms
proof (induction n arbitrary: i r)
  case 0
  then show ?case by simp
next
  case (Suc n)
  let ?r = "simulateGame_body su rnd i r"
  have l: "length (v4_homeScores ?r) = Suc i" "length (v4_awayScores ?r) = Suc i"
          "length (v4_totals ?r) = Suc i" "length (v4_margins ?r) = Suc i"
    using Suc.prems by (simp_all add: simulateGame_body_lengths)
  have p: "\<forall>j<Suc i. v4_margins ?r ! j = v4_homeScores ?r ! j - v4_awayScores ?r ! j"
  proof (intro allI impI)
    fix j assume "j < Suc i"
    then consider "j < i" | "j = i" by linarith
    then show "v4_margins ?r ! j = v4_homeScores ?r ! j - v4_awayScores ?r ! j"
    proof cases
      case 1
      then show ?thesis using Suc.prems by (simp add: simulateGame_body_old)
    next
      case 2
      then show ?thesis
        using simulateGame_body_margin [of su rnd i r] Suc.prems by simp
    qed
  qed
  show ?case
    using Suc.IH [OF l p] by simp
qed

lemma simulateGame_trials_spec:
  "length (v4_totals (simulateGame_trials su rnd numSims)) = numSims
   \<and> length (v4_margins (simulateGame_trials su rnd numSims)) = numSims
   \<and> (\<forall>j<numSims. v4_margins (simulateGame_trials su rnd numSims) ! j
          = v4_homeScores (simulateGame_trials su rnd numSims) ! j
            - v4_awayScores (simulateGame_trials su rnd numSims) ! j)"
  using simulateGame_loop_inv [of "\<lparr>v4_homeScores = [], v4_awayScores = [], v4_totals = [], v4_margins = []\<rparr>" 0 su rnd numSims]
  by (simp add: simulateGame_trials_def)

lemma simulateGame_body_trial:
  "simulateGame_body su rnd i r =
     r\<lparr>v4_homeScores := v4_homeScores r @ [homeScoreRounded (simulateGame_trial su rnd i)],
       v4_awayScores := v4_awayScores r @ [awayScoreRounded (simulateGame_trial su rnd i)],
       v4_totals := v4_totals r @ [totalRounded (simulateGame_trial su rnd i)],
       v4_margins := v4_margins r @ [homeScoreRounded (simulateGame_trial su rnd i)
                                     - awayScoreRounded (simulateGame_trial su rnd i)]\<rparr>"
  by (simp add: simulateGame_body_def simulateGame_trial_def Let_def)

lemma simulateGame_loop_map:
  "simulateGame_loop su rnd i r n =
     r\<lparr>v4_homeScores := v4_homeScores r
          @ map (\<lambda>j. homeScoreRounded (simulateGame_trial su rnd j)) [i..<i + n],
       v4_awayScores := v4_awayScores r
          @ map (\<lambda>j. awayScoreRounded (simulateGame_trial su rnd j)) [i..<i + n],
       v4_totals := v4_totals r
          @ map (\<lambda>j. totalRounded (simulateGame_trial su rnd j)) [i..<i + n],
       v4_margins := v4_margins r
          @ map (\<lambda>j. homeScoreRounded (simulateGame_trial su rnd j)
                      - awayScoreRounded (simulateGame_trial su rnd j)) [i..<i + n]\<rparr>"
proof (induction n arbitrary: i r)
  case 0
  then show ?case by simp
next
  case (Suc n)
  have u: "[i..<i + Suc n] = i # [Suc i..<Suc i + n]"
    by (simp add: upt_conv_Cons)
  show ?case
    unfolding simulateGame_loop.simps Suc.IH u simulateGame_body_trial by simp
qed

lemma simulateGame_trials_entry:
  assumes "j < numSims"
  shows "v4_homeScores (simulateGame_trials su rnd numSims) ! j
           = homeScoreRounded (simulateGame_trial su rnd j)"
    and "v4_awayScores (simulateGame_trials su rnd numSims) ! j
           = awayScoreRounded (simulateGame_trial su rnd j)"
    and "v4_totals (simulateGame_trials su rnd numSims) ! j
           = totalRounded (simulateGame_trial su rnd j)"
  using assms by (simp_all add: simulateGame_trials_def simulateGame_loop_map)

text \<open>After the loop no slot of the two arrays is empty.\<close>

lemma runTrials_no_holes:
  "None \<notin> set (totals (runTrials H A hfaPts ns rnd))
   \<and> None \<notin> set (spreads (runTrials H A hfaPts ns rnd))"
proof -
  have "x \<noteq> None" if "x \<in> set (totals (runTrials H A hfaPts ns rnd))" for x
  proof -
    from that obtain j where "j < length (totals (runTrials H A hfaPts ns rnd))"
      and "x = totals (runTrials H A hfaPts ns rnd) ! j"
      by (auto simp: in_set_conv_nth)
    then show ?thesis
      using runTrials_entry(1) [of j ns H A hfaPts rnd] by (simp add: runTrials_length)
  qed
  moreover have "x \<noteq> None" if "x \<in> set (spreads (runTrials H A hfaPts ns rnd))" for x
  proof -
    from that obtain j where "j < length (spreads (runTrials H A hfaPts ns rnd))"
      and "x = spreads (runTrials H A hfaPts ns rnd) ! j"
      by (auto simp: in_set_conv_nth)
    then show ?thesis
      using runTrials_entry(2) [of j ns H A hfaPts rnd] by (simp add: runTrials_length)
  qed
  ultimately show ?thesis by blast
qed

subsection \<open>Market probabilities\<close>

















subsection \<open>Totals and margins of a trial\<close>

text \<open>The example states have both teams picked and loaded.\<close>

lemma example_states:
  "homeTeam (dds_state ns) \<noteq> []" "awayTeam (dds_state ns) \<noteq> []"
  "teamDB (dds_state ns) (homeTeam (dds_state ns)) = Some strong_home"
  "teamDB (dds_state ns) (awayTeam (dds_state ns)) = Some stingy_away"
  "homeTeam (gauss_state ns) \<noteq> []" "awayTeam (gauss_state ns) \<noteq> []"
  "teamDB (gauss_state ns) (homeTeam (gauss_state ns)) = Some strong_home"
  "teamDB (gauss_state ns) (awayTeam (gauss_state ns)) = Some stingy_away"
  "(dds_state a)\<lparr>numSim := ns\<rparr> = dds_state ns"
  "(gauss_state a)\<lparr>numSimulations := ns\<rparr> = gauss_state ns"
  by (simp_all add: dds_state_def gauss_state_def two_teams_def)

text \<open>The first trial of the even calibrated\_v4 game on the draws \<open>1/2, 1/4, 1/2, 1/4\<close>.\<close>

lemma boxMuller_half_quarter:
  "boxMuller (1 / 2) (1 / 4) = 0" "boxMuller_sin (1 / 2) (1 / 4) = sqrt (2 * ln 2)"
  by (simp_all add: boxMuller_def boxMuller_sin_def ln_div)

lemma sqrt_2ln2_gt_1: "1 < sqrt (2 * ln (2::real))"
proof -
  have "exp (1 / 2) * exp (1 / 2) = exp (1::real)"
    by (simp add: mult_exp_exp)
  then have "(exp (1 / 2 :: real))\<^sup>2 < 2\<^sup>2"
    using exp_le by (simp add: power2_eq_square)
  then have "exp (1 / 2 :: real) < 2"
    by (rule power2_less_imp_less) simp
  then have "exp (1 / 2 :: real) < exp (ln 2)" by simp
  then have "1 / 2 < ln (2::real)" by (simp only: exp_less_cancel_iff)
  then have "1 < 2 * ln (2::real)" by simp
  then show ?thesis by simp
qed

lemma sigma_20: "sigmaMargin 20 = 9.5" "sigmaTotal 20 = 10.5"
  by (simp_all add: sigmaMargin_def sigmaTotal_def)

text \<open>
  Claim C9, as amended. In every run of the discrete simulator and of FIXED\_v2, for every
  trial \<open>j\<close> the recorded total is the home score plus the away score of that trial and the
  recorded margin is the home score minus the away score, the arrays holding one entry
  per trial in trial order. In calibrated\_v4 the recorded home and away scores of trial
  \<open>j\<close> are the rounded margin scores drawn from the first Box-Muller pair of the trial and
  the recorded margin is their difference; the recorded total is the rounding of the sum
  of a separately drawn pair of total scores (the first pair mixed 0.7 to 0.3 with the
  second pair of the trial, on the total sigma), and the totals and margins arrays have
  one entry per trial in trial order.
\<close>

theorem trial_totals_and_margins:
  assumes "j < nat (trialCount ns)" "j < gauss_iterations gs" "j < numSims"
  shows "totals (runTrials H A hfa ns rnd) ! j
           = Some (hs (trialOut H A hfa rnd j) + as (trialOut H A hfa rnd j))
       \<and> spreads (runTrials H A hfa ns rnd) ! j
           = Some (hs (trialOut H A hfa rnd j) - as (trialOut H A hfa rnd j))
       \<and> length (totals (runTrials H A hfa ns rnd)) = nat (trialCount ns)
       \<and> length (spreads (runTrials H A hfa ns rnd)) = nat (trialCount ns)
       \<and> homeScores (gaussTrials H A hfa gs rnd) ! j
           = drawScore (fst (projections H A hfa)) (boxMuller (rnd (4 * j)) (rnd (4 * j + 1)))
       \<and> awayScores (gaussTrials H A hfa gs rnd) ! j
           = drawScore (snd (projections H A hfa)) (boxMuller (rnd (4 * j + 2)) (rnd (4 * j + 3)))
       \<and> totals (gaussTrials H A hfa gs rnd) ! j
           = homeScores (gaussTrials H A hfa gs rnd) ! j + awayScores (gaussTrials H A hfa gs rnd) ! j
       \<and> spreads (gaussTrials H A hfa gs rnd) ! j
           = homeScores (gaussTrials H A hfa gs rnd) ! j - awayScores (gaussTrials H A hfa gs rnd) ! j
       \<and> length (totals (gaussTrials H A hfa gs rnd)) = gauss_iterations gs
       \<and> length (spreads (gaussTrials H A hfa gs rnd)) = gauss_iterations gs
       \<and> v4_margins (simulateGame_trials su rnd numSims) ! j
           = v4_homeScores (simulateGame_trials su rnd numSims) ! j
             - v4_awayScores (simulateGame_trials su rnd numSims) ! j
       \<and> length (v4_totals (simulateGame_trials su rnd numSims)) = numSims
       \<and> length (v4_margins (simulateGame_trials su rnd numSims)) = numSims
       \<and> (let z1 = boxMuller (rnd (4 * j)) (rnd (4 * j + 1));
               z2 = boxMuller_sin (rnd (4 * j)) (rnd (4 * j + 1));
               z3 = boxMuller (rnd (4 * j + 2)) (rnd (4 * j + 3));
               z4 = boxMuller_sin (rnd (4 * j + 2)) (rnd (4 * j + 3));
               awayRandom = rho su * z1 + sqrt (1 - rho su * rho su) * z2
           in v4_homeScores (simulateGame_trials su rnd numSims) ! j
                = of_int (js_round (max 0 (homeExpPts_forMargin su
                                            + z1 * sigmaMargin (homeExpPts_forMargin su))))
            \<and> v4_awayScores (simulateGame_trials su rnd numSims) ! j
                = of_int (js_round (max 0 (awayExpPts_forMargin su
                                            + awayRandom * sigmaMargin (awayExpPts_forMargin su))))
            \<and> v4_totals (simulateGame_trials su rnd numSims) ! j
                = of_int (js_round
                    (max 0 (homeExpPts_forTotal su
                            + (0.7 * z1 + 0.3 * z3) * sigmaTotal (homeExpPts_forTotal su))
                     + max 0 (awayExpPts_forTotal su
                              + (0.7 * awayRandom + 0.3 * z4) * sigmaTotal (awayExpPts_forTotal su)))))"
proof -
  have v: "let z1 = boxMuller (rnd (4 * j)) (rnd (4 * j + 1));
               z2 = boxMuller_sin (rnd (4 * j)) (rnd (4 * j + 1));
               z3 = boxMuller (rnd (4 * j + 2)) (rnd (4 * j + 3));
               z4 = boxMuller_sin (rnd (4 * j + 2)) (rnd (4 * j + 3));
               awayRandom = rho su * z1 + sqrt (1 - rho su * rho su) * z2
           in v4_homeScores (simulateGame_trials su rnd numSims) ! j
                = of_int (js_round (max 0 (homeExpPts_forMargin su
                                            + z1 * sigmaMargin (homeExpPts_forMargin su))))
            \<and> v4_awayScores (simulateGame_trials su rnd numSims) ! j
                = of_int (js_round (max 0 (awayExpPts_forMargin su
                                            + awayRandom * sigmaMargin (awayExpPts_forMargin su))))
            \<and> v4_totals (simulateGame_trials su rnd numSims) ! j
                = of_int (js_round
                    (max 0 (homeExpPts_forTotal su
                            + (0.7 * z1 + 0.3 * z3) * sigmaTotal (homeExpPts_forTotal su))
                     + max 0 (awayExpPts_forTotal su
                              + (0.7 * awayRandom + 0.3 * z4) * sigmaTotal (awayExpPts_forTotal su))))"
    unfolding simulateGame_trials_entry [OF assms(3)]
    by (simp add: simulateGame_trial_def Let_def)
  show ?thesis
    using runTrials_entry [OF assms(1), of H A hfa rnd] runTrials_length [of H A hfa ns rnd]
          gaussTrials_spec [of H A hfa gs rnd] simulateGame_trials_spec [of su rnd numSims]
          assms(2,3) v
    by simp
qed

theorem trial_totals_and_margins_witness:
  "totals (runTrials strong_home stingy_away 0 (Some 2) half_quarter) ! 1
     = Some (hs (trialOut strong_home stingy_away 0 half_quarter 1)
             + as (trialOut strong_home stingy_away 0 half_quarter 1))
   \<and> totals (gaussTrials strong_home stingy_away 0 (Some 2) half_quarter) ! 1
     = homeScores (gaussTrials strong_home stingy_away 0 (Some 2) half_quarter) ! 1
       + awayScores (gaussTrials strong_home stingy_away 0 (Some 2) half_quarter) ! 1
   \<and> v4_margins (simulateGame_trials even_game half_quarter 2) ! 1
     = v4_homeScores (simulateGame_trials even_game half_quarter 2) ! 1
       - v4_awayScores (simulateGame_trials even_game half_quarter 2) ! 1
   \<and> v4_homeScores (simulateGame_trials even_game half_quarter 2) ! 1 = 20"
proof -
  have n: "(1::nat) < nat (trialCount (Some 2))" "(1::nat) < gauss_iterations (Some 2)" "(1::nat) < 2"
    by (simp_all add: trialCount_def gauss_iterations_def)
  note T = trial_totals_and_margins [OF n, of strong_home stingy_away 0 half_quarter even_game]
  have h: "half_quarter (4 * 1) = 1 / 2" "half_quarter (4 * 1 + 1) = 1 / 4"
    by (simp_all add: half_quarter_def)
  have "v4_homeScores (simulateGame_trials even_game half_quarter 2) ! 1
          = of_int (js_round (max 0 (homeExpPts_forMargin even_game
              + boxMuller (half_quarter (4 * 1)) (half_quarter (4 * 1 + 1))
                * sigmaMargin (homeExpPts_forMargin even_game))))"
    using T by (simp add: Let_def)
  then have v: "v4_homeScores (simulateGame_trials even_game half_quarter 2) ! 1 = 20"
    unfolding h boxMuller_half_quarter by (simp add: even_game_def js_round_def)
  show ?thesis using T v by simp
qed

text \<open>
  The claim as stated fails in calibrated\_v4, whose recorded total is the rounding of a
  separately drawn pair of total scores: with 20 expected points on every side, the
  baseline correlation and the draws \<open>1/2, 1/4, 1/2, 1/4\<close>, the first trial records 20 and
  31 but a total of 52.
\<close>

theorem v4_total_is_not_home_plus_away:
  "v4_totals (simulateGame_trials even_game half_quarter 1) ! 0
   \<noteq> v4_homeScores (simulateGame_trials even_game half_quarter 1) ! 0
     + v4_awayScores (simulateGame_trials even_game half_quarter 1) ! 0"
proof -
  define s where "s = sqrt (2 * ln (2::real))"
  define c where "c = sqrt (1 - 0.22 * 0.22 :: real)"
  define R where "R = simulateGame_trials even_game half_quarter 1"
  have s1: "1 < s" unfolding s_def by (rule sqrt_2ln2_gt_1)
  have c0: "0 \<le> c" unfolding c_def by simp
  have c1: "c \<le> 1" unfolding c_def by simp
  have cs0: "0 \<le> c * s" using c0 s1 by simp
  have "c * s \<le> 1 * s" using c1 s1 by (intro mult_right_mono) simp_all
  then have cs1: "c * s \<le> s" by simp
  define M where "M = c * s * 9.5"
  define T where "T = (0.7 * (c * s) + 0.3 * s) * 10.5"
  define u where "u = c * s"
  have us: "u \<le> s" using cs1 by (simp add: u_def)
  have Mu: "M = 19 / 2 * u" by (simp add: M_def u_def)
  have Tu: "T = 147 / 20 * u + 63 / 20 * s" by (simp add: T_def u_def algebra_simps)
  have TM: "M + 1 < T" unfolding Mu Tu using us s1 by linarith
  have M0: "0 \<le> M" unfolding M_def using cs0 by simp
  have T0: "0 \<le> T" using TM M0 by simp
  have h: "v4_homeScores R ! 0 = 20"
    by (simp add: R_def simulateGame_trials_def simulateGame_body_def Let_def even_game_def
        half_quarter_def boxMuller_half_quarter sigma_20 js_round_def)
  have a: "v4_awayScores R ! 0 = of_int \<lfloor>max 0 (20 + M) + 1 / 2\<rfloor>"
    by (simp add: R_def simulateGame_trials_def simulateGame_body_def Let_def even_game_def
        half_quarter_def boxMuller_half_quarter sigma_20 js_round_def M_def c_def s_def)
  have t: "v4_totals R ! 0 = of_int \<lfloor>20 + max 0 (20 + T) + 1 / 2\<rfloor>"
    by (simp add: R_def simulateGame_trials_def simulateGame_body_def Let_def even_game_def
        half_quarter_def boxMuller_half_quarter sigma_20 js_round_def T_def c_def s_def)
  have "\<lfloor>20 + M + 1 / 2\<rfloor> + 21 \<le> \<lfloor>20 + (20 + T) + 1 / 2\<rfloor>"
  proof -
    have "20 + M + 1 / 2 + 21 \<le> 20 + (20 + T) + 1 / 2" using TM by simp
    then have "\<lfloor>20 + M + 1 / 2 + 21\<rfloor> \<le> \<lfloor>20 + (20 + T) + 1 / 2\<rfloor>" by (rule floor_mono)
    moreover have "\<lfloor>20 + M + 1 / 2 + 21\<rfloor> = \<lfloor>20 + M + 1 / 2\<rfloor> + 21"
      using floor_add_int [of "20 + M + 1 / 2" 21] by simp
    ultimately show ?thesis by simp
  qed
  then have "v4_homeScores R ! 0 + v4_awayScores R ! 0 < v4_totals R ! 0"
    unfolding h a t using M0 T0 by (simp add: max_def)
  then show ?thesis unfolding R_def by simp
qed

subsection \<open>The trial count\<close>

lemma trialCount_ge_1: "1 \<le> trialCount ns"
  by (simp add: trialCount_def)

lemma run_returns:
  assumes "homeTeam st \<noteq> []" "awayTeam st \<noteq> []"
    and "teamDB st (homeTeam st) = Some H" "teamDB st (awayTeam st) = Some A"
    and "trialCount (numSim st) < 2 ^ 32"
  shows "\<exists>r. run st rnd = Inr r
           \<and> homeMean r = Some (sumH (runTrials H A (hfaPoints st) (numSim st) rnd)
                               / real_of_int (trialCount (numSim st)))
           \<and> totalMean r \<noteq> None"
proof -
  have "0 < nat (trialCount (numSim st))" by (simp add: trialCount_def)
  then have "totals (runTrials H A (hfaPoints st) (numSim st) rnd) \<noteq> []"
    using runTrials_length [of H A "hfaPoints st" "numSim st" rnd] by auto
  then show ?thesis
    using assms by (simp add: run_def Let_def mean_def)
qed

text \<open>A trial count that \<^verbatim>\<open>new Array\<close> refuses ends the run of the discrete simulator.\<close>

lemma run_array_too_long:
  assumes "homeTeam st \<noteq> []" "awayTeam st \<noteq> []"
    and "teamDB st (homeTeam st) = Some H" "teamDB st (awayTeam st) = Some A"
    and "2 ^ 32 \<le> trialCount (numSim st)"
  shows "run st rnd = Inl Invalid_array_length"
  using assms by (simp add: run_def)

lemma run_reads_trialCount:
  assumes "trialCount ns = trialCount ns'"
  shows "run (st\<lparr>numSim := ns\<rparr>) rnd = run (st\<lparr>numSim := ns'\<rparr>) rnd"
proof -
  have t: "runTrials H' A' h ns rnd = runTrials H' A' h ns' rnd" for H' A' h
    by (simp add: runTrials_def assms)
  show ?thesis
    by (simp add: run_def Let_def t assms split: option.splits)
qed

lemma runSimulation_reads_iterations:
  assumes "gauss_iterations ns = gauss_iterations ns'"
  shows "runSimulation (gs\<lparr>numSimulations := ns\<rparr>) rnd
           = runSimulation (gs\<lparr>numSimulations := ns'\<rparr>) rnd"
proof -
  have t: "gaussTrials H' A' h ns rnd = gaussTrials H' A' h ns' rnd" for H' A' h
    by (simp add: gaussTrials_def assms)
  show ?thesis
    by (simp add: runSimulation_def Let_def t split: option.splits)
qed

lemma runSimulation_returns:
  assumes "homeTeam st \<noteq> []" "awayTeam st \<noteq> []"
    and "teamDB st (homeTeam st) = Some H" "teamDB st (awayTeam st) = Some A"
    and "gauss_iterations (numSimulations st) = 0"
  shows "\<exists>r. runSimulation st rnd = Inr r \<and> totalMean r = None \<and> homeMean r = None
           \<and> totalMedian r = None
           \<and> res_pOver r = (case marketTotal st of None \<Rightarrow> Null | Some t \<Rightarrow> NotFinite)"
proof -
  have "totals (gaussTrials H A (hfaAdjustment st) (numSimulations st) rnd) = []"
       "homeScores (gaussTrials H A (hfaAdjustment st) (numSimulations st) rnd) = []"
    using gaussTrials_spec [of H A "hfaAdjustment st" "numSimulations st" rnd] assms(5)
    by simp_all
  then show ?thesis
    using assms(1-4)
    by (simp add: runSimulation_def Let_def split_def mean_def median_def pOver_def ratio_def
        split: option.splits)
qed

text \<open>
  Claim C8, as amended. A trial count that is NaN or not positive never stops a run. The
  discrete simulator replaces NaN and zero by 10000 and a negative count by 1: its run is
  the run of that count, which runs that many trials and returns a summary whenever both
  teams are picked and loaded. The run of FIXED\_v2 on such a count is its run of zero
  trials, which still returns a summary, whose means and median are not numbers, nor is
  its over probability when a market total is set.
\<close>

theorem trial_count_is_defaulted:
  assumes "ns = None \<or> (\<exists>n. ns = Some n \<and> n \<le> 0 \<and> - (10 ^ 21) < n)"
  shows "trialCount ns = (if ns = None \<or> ns = Some 0 then 10000 else 1)
       \<and> length (totals (runTrials H A hfa ns rnd)) = nat (trialCount ns)
       \<and> run (st\<lparr>numSim := ns\<rparr>) rnd
           = run (st\<lparr>numSim := Some (if ns = None \<or> ns = Some 0 then 10000 else 1)\<rparr>) rnd
       \<and> (homeTeam st \<noteq> [] \<and> awayTeam st \<noteq> [] \<and> teamDB st (homeTeam st) = Some H
            \<and> teamDB st (awayTeam st) = Some A
          \<longrightarrow> (\<exists>r. run (st\<lparr>numSim := ns\<rparr>) rnd = Inr r
                 \<and> homeMean r = Some (sumH (runTrials H A (hfaPoints st) ns rnd)
                                     / (if ns = None \<or> ns = Some 0 then 10000 else 1))
                 \<and> totalMean r \<noteq> None))
       \<and> gauss_iterations ns = 0
       \<and> runSimulation (gs\<lparr>numSimulations := ns\<rparr>) rnd
           = runSimulation (gs\<lparr>numSimulations := Some 0\<rparr>) rnd
       \<and> (homeTeam gs \<noteq> [] \<and> awayTeam gs \<noteq> [] \<and> teamDB gs (homeTeam gs) = Some H
            \<and> teamDB gs (awayTeam gs) = Some A
          \<longrightarrow> (\<exists>r. runSimulation (gs\<lparr>numSimulations := ns\<rparr>) rnd = Inr r
                 \<and> totalMean r = None \<and> homeMean r = None \<and> totalMedian r = None
                 \<and> res_pOver r = (case marketTotal gs of None \<Rightarrow> Null
                                   | Some t \<Rightarrow> NotFinite)))"
proof -
  have a: "trialCount ns = (if ns = None \<or> ns = Some 0 then 10000 else 1)"
    using assms by (auto simp: trialCount_def max_def split: if_splits)
  have a': "trialCount ns = trialCount (Some (if ns = None \<or> ns = Some 0 then 10000 else 1))"
    unfolding a by (simp add: trialCount_def)
  have g: "gauss_iterations ns = 0"
    using assms by (auto simp: gauss_iterations_def)
  have g0: "gauss_iterations (Some 0) = 0"
    by (simp add: gauss_iterations_def)
  have e: "run (st\<lparr>numSim := ns\<rparr>) rnd
           = run (st\<lparr>numSim := Some (if ns = None \<or> ns = Some 0 then 10000 else 1)\<rparr>) rnd"
    by (rule run_reads_trialCount [OF a'])
  have e': "runSimulation (gs\<lparr>numSimulations := ns\<rparr>) rnd
           = runSimulation (gs\<lparr>numSimulations := Some 0\<rparr>) rnd"
    by (rule runSimulation_reads_iterations) (simp only: g g0)
  have b: "trialCount ns < 2 ^ 32" unfolding a by simp
  have q: "real_of_int (trialCount ns) = (if ns = None \<or> ns = Some 0 then 10000 else 1)"
    unfolding a by simp
  have r: "\<exists>r. run (st\<lparr>numSim := ns\<rparr>) rnd = Inr r
                 \<and> homeMean r = Some (sumH (runTrials H A (hfaPoints st) ns rnd)
                                     / (if ns = None \<or> ns = Some 0 then 10000 else 1))
                 \<and> totalMean r \<noteq> None"
    if "homeTeam st \<noteq> [] \<and> awayTeam st \<noteq> [] \<and> teamDB st (homeTeam st) = Some H
            \<and> teamDB st (awayTeam st) = Some A"
  proof -
    have "\<exists>r. run (st\<lparr>numSim := ns\<rparr>) rnd = Inr r
                 \<and> homeMean r = Some (sumH (runTrials H A (hfaPoints st) ns rnd)
                                     / real_of_int (trialCount ns))
                 \<and> totalMean r \<noteq> None"
      using that b run_returns [of "st\<lparr>numSim := ns\<rparr>" H A rnd] by simp
    then show ?thesis unfolding q .
  qed
  have s: "\<exists>r. runSimulation (gs\<lparr>numSimulations := ns\<rparr>) rnd = Inr r
                 \<and> totalMean r = None \<and> homeMean r = None \<and> totalMedian r = None
                 \<and> res_pOver r = (case marketTotal gs of None \<Rightarrow> Null
                                   | Some t \<Rightarrow> NotFinite)"
    if "homeTeam gs \<noteq> [] \<and> awayTeam gs \<noteq> [] \<and> teamDB gs (homeTeam gs) = Some H
            \<and> teamDB gs (awayTeam gs) = Some A"
    using that g runSimulation_returns [of "gs\<lparr>numSimulations := ns\<rparr>" H A rnd] by simp
  show ?thesis
    using a g e e' r s runTrials_length [of H A hfa ns rnd] by blast
qed

theorem trial_count_is_defaulted_witness:
  "trialCount (Some (- 5)) = 1
   \<and> length (totals (runTrials strong_home stingy_away 0 (Some (- 5)) half_quarter)) = 1
   \<and> run (dds_state (Some (- 5))) half_quarter = run (dds_state (Some 1)) half_quarter
   \<and> (\<exists>r. run (dds_state (Some (- 5))) half_quarter = Inr r \<and> totalMean r \<noteq> None)
   \<and> (\<exists>r. runSimulation (gauss_state (Some (- 5))) half_quarter = Inr r \<and> totalMean r = None)"
proof -
  have h: "Some (- 5 :: int) = None \<or> (\<exists>n. Some (- 5 :: int) = Some n \<and> n \<le> 0 \<and> - (10 ^ 21) < n)"
    by simp
  note T = trial_count_is_defaulted [OF h, of strong_home stingy_away 0 half_quarter
             "dds_state None" "gauss_state None"]
  have c1: "trialCount (Some (- 5)) = 1"
    using T [THEN conjunct1] by simp
  have c2: "length (totals (runTrials strong_home stingy_away 0 (Some (- 5)) half_quarter)) = 1"
    using T [THEN conjunct2, THEN conjunct1] c1 by simp
  have c3: "run (dds_state (Some (- 5))) half_quarter = run (dds_state (Some 1)) half_quarter"
    using T [THEN conjunct2, THEN conjunct2, THEN conjunct1] by (simp add: example_states)
  have c4: "\<exists>r. run (dds_state (Some (- 5))) half_quarter = Inr r \<and> totalMean r \<noteq> None"
    using T [THEN conjunct2, THEN conjunct2, THEN conjunct2, THEN conjunct1]
    by (simp add: example_states; blast)
  have c5: "\<exists>r. runSimulation (gauss_state (Some (- 5))) half_quarter = Inr r \<and> totalMean r = None"
    using T [THEN conjunct2, THEN conjunct2, THEN conjunct2, THEN conjunct2, THEN conjunct2,
             THEN conjunct2]
    by (simp add: example_states; blast)
  show ?thesis
    by (intro conjI) (rule c1 c2 c3 c4 c5)+
qed

text \<open>
  The claim as stated has such a run fail before sampling: with a trial count of zero the
  discrete simulator runs 10000 trials and returns a summary.
\<close>

theorem zero_trials_run_ten_thousand:
  "trialCount (Some 0) = 10000
   \<and> length (totals (runTrials strong_home stingy_away 0 (Some 0) half_quarter)) = 10000
   \<and> (\<exists>r. run (dds_state (Some 0)) half_quarter = Inr r)
   \<and> trialCount None = 10000 \<and> trialCount (Some (- 5)) = 1"
proof -
  have t: "trialCount (Some 0) = 10000" "trialCount None = 10000" "trialCount (Some (- 5)) = 1"
    by (simp_all add: trialCount_def)
  have "numSim (dds_state (Some 0)) = Some 0" by (simp add: dds_state_def)
  then have "trialCount (numSim (dds_state (Some 0))) < 2 ^ 32" by (simp add: t)
  then have "\<exists>r. run (dds_state (Some 0)) half_quarter = Inr r"
    using run_returns [of "dds_state (Some 0)" strong_home stingy_away half_quarter]
    by (simp add: example_states) blast
  then show ?thesis
    using runTrials_length [of strong_home stingy_away 0 "Some 0" half_quarter] t by simp
qed

subsection \<open>A negative home-field advantage in the discrete variant\<close>

lemma tiltHome_nonpositive: "hfa \<le> 0 \<Longrightarrow> tiltHome b hfa = tiltHome b 0"
  by (simp add: tiltHome_def max_def)

text \<open>
  Claim C10. In the discrete variant a home-field advantage that is not positive changes
  nothing: the tilted home probabilities, the game \<^verbatim>\<open>simulateOne\<close> samples from any draws,
  the value the call site passes on, the trial arrays and the summary of the run are those
  of a home-field advantage of zero.
\<close>

theorem negative_hfa_has_no_effect:
  assumes "hfa \<le> 0"
  shows "adjHome b hfa = adjHome b 0
       \<and> simulateOne H A nH nA gd ps hfa rnd k = simulateOne H A nH nA gd ps 0 rnd k
       \<and> max 0 (js_or hfa 0) = 0
       \<and> runTrials H A hfa ns rnd = runTrials H A 0 ns rnd
       \<and> run (st\<lparr>hfaPoints := hfa\<rparr>) rnd = run (st\<lparr>hfaPoints := 0\<rparr>) rnd"
proof -
  have a: "adjHome b hfa = adjHome b 0" for b
    by (simp add: adjHome_def tiltHome_nonpositive [OF assms])
  have s: "simulateOne H A nH nA gd ps hfa rnd k = simulateOne H A nH nA gd ps 0 rnd k"
    by (simp add: simulateOne_def a)
  have m: "max 0 (js_or hfa 0) = 0"
    using assms by (simp add: js_or_def)
  have t: "runTrials H' A' hfa ns' rnd = runTrials H' A' 0 ns' rnd" for H' A' ns'
    unfolding runTrials_def m by (simp add: js_or_def)
  have r: "run (st\<lparr>hfaPoints := hfa\<rparr>) rnd = run (st\<lparr>hfaPoints := 0\<rparr>) rnd"
    by (simp add: run_def t Let_def split: option.splits)
  show ?thesis using a s m t r by simp
qed

theorem negative_hfa_has_no_effect_witness:
  "simulateOne strong_home stingy_away (buildNets strong_home stingy_away)
      (buildNets stingy_away strong_home) 24 0.5 (- 3) half_quarter 0
   = simulateOne strong_home stingy_away (buildNets strong_home stingy_away)
      (buildNets stingy_away strong_home) 24 0.5 0 half_quarter 0
   \<and> run ((dds_state (Some 100))\<lparr>hfaPoints := - 3\<rparr>) half_quarter
     = run ((dds_state (Some 100))\<lparr>hfaPoints := 0\<rparr>) half_quarter"
  using negative_hfa_has_no_effect [of "- 3" _ strong_home stingy_away
          "buildNets strong_home stingy_away" "buildNets stingy_away strong_home" 24 "0.5"
          half_quarter 0 _ "dds_state (Some 100)"]
  by simp

end
